theory Spec2Isabelle
  imports Complex_Main
begin

section \<open>Data analysis tool (data\_analysis\_tool.py)\<close>

text \<open>
  Numbers are modelled as exact reals: a NumPy value is a \<open>real\<close>, and the only
  non-finite value a statistic can take here (\<open>nan\<close>, the mean of an empty array)
  is \<open>None\<close>.  Rounding error of the floating-point operations is outside the model.
\<close>

datatype py_error = ValueError | TypeError | StatisticsError | OSError

subsection \<open>Paths, loaded arrays and unpacking\<close>

text \<open>\<open>os.path.basename\<close>: everything after the last slash.\<close>

definition basename :: "string \<Rightarrow> string" where
  "basename p = rev (takeWhile (\<lambda>c. c \<noteq> CHR ''/'') (rev p))"

text \<open>
  An array returned by \<open>np.load\<close> is iterated as a sequence of rows.
  \<open>zip(*data)\<close> yields the columns, cut at the shortest row, and none at all
  when there is no row.
\<close>

type_synonym ndarray = "real list list"

definition zip_star :: "'a list list \<Rightarrow> 'a list list" where
  "zip_star rows =
     (if rows = [] then []
      else map (\<lambda>j. map (\<lambda>r. r ! j) rows)
             [0..<fold min (map length rows) (length (hd rows))])"

text \<open>\<open>x_data, y_data = zip(*data)\<close> raises ValueError unless there are exactly two columns.\<close>

definition unpack2 :: "'a list list \<Rightarrow> py_error + ('a list \<times> 'a list)" where
  "unpack2 cols = (case cols of [a, b] \<Rightarrow> Inr (a, b) | _ \<Rightarrow> Inl ValueError)"

type_synonym dataset = "real list \<times> real list \<times> string"

subsection \<open>Decimal rendering\<close>

definition digit_char :: "nat \<Rightarrow> char" where
  "digit_char d = ''0123456789'' ! d"

function str_nat :: "nat \<Rightarrow> string" where
  "str_nat n = (if n < 10 then [digit_char n] else str_nat (n div 10) @ [digit_char (n mod 10)])"
  by pat_completeness auto
termination
  by (relation "measure id") auto

declare str_nat.simps [simp del]

definition str_int :: "int \<Rightarrow> string" where
  "str_int i = (if i < 0 then CHR ''-'' # str_nat (nat (- i)) else str_nat (nat i))"

text \<open>Rounding to the nearest integer, ties to even.\<close>

definition round_half_even :: "real \<Rightarrow> int" where
  "round_half_even v =
     (let f = \<lfloor>v\<rfloor>; d = v - of_int f
      in if d < 1 / 2 then f
         else if 1 / 2 < d then f + 1
         else if even f then f else f + 1)"

text \<open>The format specification \<open>.2f\<close> applied to a finite number.\<close>

definition format_2f :: "real \<Rightarrow> string" where
  "format_2f v =
     (let k = nat (round_half_even (100 * \<bar>v\<bar>))
      in (if v < 0 then ''-'' else '''') @ str_nat (k div 100) @ ''.'' @
         [digit_char (k div 10 mod 10), digit_char (k mod 10)])"

definition format_np :: "real option \<Rightarrow> string" where
  "format_np v = (case v of None \<Rightarrow> ''nan'' | Some r \<Rightarrow> format_2f r)"

subsection \<open>Descriptive statistics\<close>

definition np_mean :: "real list \<Rightarrow> real option" where
  "np_mean ys = (if ys = [] then None else Some (sum_list ys / real (length ys)))"

text \<open>\<open>np.std\<close> with its default \<open>ddof = 0\<close>: the root of the mean squared deviation.\<close>

definition np_std :: "real list \<Rightarrow> real option" where
  "np_std ys =
     (if ys = [] then None
      else let m = sum_list ys / real (length ys)
           in Some (sqrt (sum_list (map (\<lambda>v. (v - m)\<^sup>2) ys) / real (length ys))))"

definition middle :: "real list \<Rightarrow> real" where
  "middle ys =
     (let s = sort ys; n = length s
      in if n mod 2 = 1 then s ! (n div 2)
         else (s ! (n div 2 - 1) + s ! (n div 2)) / 2)"

text \<open>\<open>statistics.median\<close> raises StatisticsError on no data; \<open>np.median\<close> gives nan.\<close>

definition statistics_median :: "real list \<Rightarrow> py_error + real" where
  "statistics_median ys = (if ys = [] then Inl StatisticsError else Inr (middle ys))"

definition np_median :: "real list \<Rightarrow> real option" where
  "np_median ys = (if ys = [] then None else Some (middle ys))"

subsection \<open>The chart (matplotlib axes)\<close>

text \<open>
  The abscissae of a line can be non-finite: \<open>fftfreq\<close> divides by the sample spacing,
  and NumPy divides by zero into \<open>inf\<close> and \<open>nan\<close> with a warning, not an exception.
\<close>

datatype np_float = Finite real | PosInf | NegInf | NaN

record line2d =
  xdata :: "np_float list"
  ydata :: "real list"
  fmt :: string
  label :: string

record hist_bars =
  hist_data :: "real list"
  bins :: nat
  alpha :: real
  hist_label :: string

record mpl_axes =
  lines :: "line2d list"
  patches :: "hist_bars list"
  xlabel :: string
  ylabel :: string
  title :: string
  legend :: "string list option"

text \<open>\<open>axes.clear()\<close>, and a fresh subplot.\<close>

definition cleared :: mpl_axes where
  "cleared = \<lparr>lines = [], patches = [], xlabel = [], ylabel = [], title = [], legend = None\<rparr>"

text \<open>
  Every bar of a histogram is a child of the axes.  A line drawn without a label gets
  matplotlib's private label \<open>_child<N>\<close>, N the number of children so far.
\<close>

definition children :: "mpl_axes \<Rightarrow> nat" where
  "children ax = length (lines ax) + sum_list (map bins (patches ax))"

text \<open>\<open>axes.plot(x, y, fmt, label=...)\<close>: ValueError when the two lengths differ.\<close>

definition axes_plot ::
  "mpl_axes \<Rightarrow> np_float list \<Rightarrow> real list \<Rightarrow> string \<Rightarrow> string option \<Rightarrow> mpl_axes \<times> py_error option" where
  "axes_plot ax x y f lbl =
     (if length x \<noteq> length y then (ax, Some ValueError)
      else (ax\<lparr>lines := lines ax @
                [\<lparr>xdata = x, ydata = y, fmt = f,
                  label = (case lbl of None \<Rightarrow> ''_child'' @ str_nat (children ax) | Some s \<Rightarrow> s)\<rparr>]\<rparr>,
            None))"

text \<open>\<open>axes.hist(y, bins=b, alpha=a, label=...)\<close> adds bars, and no line.\<close>

definition axes_hist :: "mpl_axes \<Rightarrow> real list \<Rightarrow> nat \<Rightarrow> real \<Rightarrow> string \<Rightarrow> mpl_axes" where
  "axes_hist ax y b a lbl =
     ax\<lparr>patches := patches ax @ [\<lparr>hist_data = y, bins = b, alpha = a, hist_label = lbl\<rparr>]\<rparr>"

text \<open>
  \<open>axes.legend()\<close> lists the labelled artists, lines before bars, leaving out empty
  labels and labels that start with an underscore.
\<close>

definition shown_label :: "string \<Rightarrow> bool" where
  "shown_label s = (case s of [] \<Rightarrow> False | c # _ \<Rightarrow> c \<noteq> CHR ''_'')"

definition axes_legend :: "mpl_axes \<Rightarrow> mpl_axes" where
  "axes_legend ax =
     ax\<lparr>legend := Some (filter shown_label (map label (lines ax) @ map hist_label (patches ax)))\<rparr>"

subsection \<open>Spectrum (scipy.fft.fft, np.fft.fftfreq)\<close>

text \<open>The discrete Fourier transform; \<open>fft\<close> raises ValueError on an empty input.\<close>

definition dft_bin :: "real list \<Rightarrow> nat \<Rightarrow> complex" where
  "dft_bin y k =
     sum_list (map (\<lambda>n. of_real (y ! n) * cis (- (2 * pi * real k * real n / real (length y))))
                 [0..<length y])"

definition scipy_fft :: "real list \<Rightarrow> py_error + complex list" where
  "scipy_fft y = (if y = [] then Inl ValueError else Inr (map (dft_bin y) [0..<length y]))"

text \<open>
  \<open>fftfreq(n, d)\<close>: the bin numbers \<open>0, ..., (n-1) div 2, -(n div 2), ..., -1\<close>,
  each multiplied by \<open>1.0 / (n * d)\<close>.  When \<open>n * d\<close> is zero that factor is \<open>inf\<close>,
  and the products are \<open>nan\<close> for bin 0, \<open>inf\<close> for a positive and \<open>-inf\<close> for a
  negative bin.
\<close>

definition fftfreq :: "nat \<Rightarrow> real \<Rightarrow> np_float list" where
  "fftfreq n d =
     map (\<lambda>k. if real n * d = 0
              then (if k = 0 then NaN else if 0 < k then PosInf else NegInf)
              else Finite (of_int k / (real n * d)))
       (map int [0..<(n - 1) div 2 + 1] @ map (\<lambda>j. int j - int (n div 2)) [0..<n div 2])"

subsection \<open>PlotCanvas.plot\<close>

text \<open>
  \<open>np.polyfit(x, y, 1)\<close> is a routine outside the repository: its result, slope and
  intercept or an exception, is the parameter \<open>polyfit\<close>.
\<close>

type_synonym polyfit = "real list \<Rightarrow> real list \<Rightarrow> py_error + (real \<times> real)"

record plot_canvas =
  axes :: mpl_axes
  draws :: nat

text \<open>The body of the loop over the datasets, for one dataset.\<close>

definition plot_one ::
  "polyfit \<Rightarrow> string \<Rightarrow> mpl_axes \<Rightarrow> real list \<Rightarrow> real list \<Rightarrow> string \<Rightarrow> mpl_axes \<times> py_error option" where
  "plot_one polyfit plot_type ax x_data y_data lbl =
     (if plot_type = ''line'' then axes_plot ax (map Finite x_data) y_data [] (Some lbl)
      else if plot_type = ''hist'' then (axes_hist ax y_data 30 (1 / 2) lbl, None)
      else if plot_type = ''fft'' then
        (let N = length y_data;
             T = (if length x_data > 1 then x_data ! 1 - x_data ! 0 else 1)
         in case scipy_fft y_data of
              Inl e \<Rightarrow> (ax, Some e)
            | Inr yf \<Rightarrow>
                (let xf = take (N div 2) (fftfreq N T)
                 in axes_plot ax xf (map (\<lambda>c. 2 / real N * cmod c) (take (N div 2) yf)) []
                      (Some lbl)))
      else if plot_type = ''regression'' then
        (case axes_plot ax (map Finite x_data) y_data ''o'' (Some lbl) of
           (ax1, Some e) \<Rightarrow> (ax1, Some e)
         | (ax1, None) \<Rightarrow>
             (case polyfit x_data y_data of
                Inl e \<Rightarrow> (ax1, Some e)
              | Inr (m, b) \<Rightarrow> axes_plot ax1 (map Finite x_data) (map (\<lambda>v. m * v + b) x_data) ''-'' None))
      else (ax, None))"

fun plot_loop ::
  "polyfit \<Rightarrow> string \<Rightarrow> mpl_axes \<Rightarrow> dataset list \<Rightarrow> mpl_axes \<times> py_error option" where
  "plot_loop polyfit plot_type ax [] = (ax, None)"
| "plot_loop polyfit plot_type ax ((x_data, y_data, lbl) # rest) =
     (case plot_one polyfit plot_type ax x_data y_data lbl of
        (ax1, Some e) \<Rightarrow> (ax1, Some e)
      | (ax1, None) \<Rightarrow> plot_loop polyfit plot_type ax1 rest)"

text \<open>The test before \<open>self.axes.legend()\<close>: it looks at the lines of the axes only.\<close>

definition any_line_labelled :: "mpl_axes \<Rightarrow> bool" where
  "any_line_labelled ax = list_ex (\<lambda>l. label l \<noteq> ''_nolegend_'') (lines ax)"

definition plot ::
  "polyfit \<Rightarrow> plot_canvas \<Rightarrow> dataset list \<Rightarrow> string \<Rightarrow> string \<Rightarrow> string
     \<Rightarrow> plot_canvas \<times> py_error option" where
  "plot polyfit c dsets plot_type x_label y_label =
     (case plot_loop polyfit plot_type cleared dsets of
        (ax, Some e) \<Rightarrow> (c\<lparr>axes := ax\<rparr>, Some e)
      | (ax, None) \<Rightarrow>
          (let ax1 = ax\<lparr>xlabel := x_label, ylabel := y_label\<rparr>;
               ax2 = (if any_line_labelled ax1 then axes_legend ax1 else ax1)
           in (\<lparr>axes = ax2, draws = draws c + 1\<rparr>, None)))"

subsection \<open>MainWindow\<close>

text \<open>
  The checkable list holds (text, checked) entries in insertion order; the registry
  \<open>self.datasets\<close> is a dictionary; the table is a list of rows, a row without items
  being empty.
\<close>

record main_window =
  dataset_selector :: "(string \<times> bool) list"
  datasets :: "string \<rightharpoonup> ndarray"
  plot_type_selector :: string
  canvas :: plot_canvas
  stats_table :: "string list list"

definition set_row_count :: "nat \<Rightarrow> 'a list list \<Rightarrow> 'a list list" where
  "set_row_count n tbl = take n tbl @ replicate (n - length tbl) []"

fun stats_rows ::
  "nat \<Rightarrow> dataset list \<Rightarrow> string list list \<Rightarrow> string list list \<times> py_error option" where
  "stats_rows i [] tbl = (tbl, None)"
| "stats_rows i ((x_data, y_data, name) # rest) tbl =
     (let mean = np_mean y_data
      in case statistics_median y_data of
           Inl e \<Rightarrow> (tbl, Some e)
         | Inr median \<Rightarrow>
             (let std_dev = np_std y_data
              in stats_rows (Suc i) rest
                   (tbl[i := [name, format_np mean, format_2f median, format_np std_dev]])))"

definition update_stats_table ::
  "string list list \<Rightarrow> dataset list \<Rightarrow> string list list \<times> py_error option" where
  "update_stats_table tbl dsets = stats_rows 0 dsets (set_row_count (length dsets) tbl)"

text \<open>
  The loop that collects the checked entries whose text is a key of the registry; the
  unpacking of a dataset may raise.
\<close>

fun gather ::
  "(string \<rightharpoonup> ndarray) \<Rightarrow> (string \<times> bool) list \<Rightarrow> py_error + dataset list" where
  "gather reg [] = Inr []"
| "gather reg ((name, checked) # rest) =
     (if checked then
        (case reg name of
           None \<Rightarrow> gather reg rest
         | Some data \<Rightarrow>
             (case unpack2 (zip_star data) of
                Inl e \<Rightarrow> Inl e
              | Inr (x_data, y_data) \<Rightarrow>
                  (case gather reg rest of
                     Inl e \<Rightarrow> Inl e
                   | Inr ds \<Rightarrow> Inr ((x_data, y_data, name) # ds))))
      else gather reg rest)"

definition update_plot :: "polyfit \<Rightarrow> main_window \<Rightarrow> main_window \<times> py_error option" where
  "update_plot polyfit w =
     (case gather (datasets w) (dataset_selector w) of
        Inl e \<Rightarrow> (w, Some e)
      | Inr ds \<Rightarrow>
          (let plot_type = plot_type_selector w;
               x_label = (if plot_type \<noteq> ''fft'' then ''Time'' else ''Frequency'');
               y_label = (if plot_type \<noteq> ''hist'' then ''Amplitude'' else ''Frequency'')
           in if plot_type \<noteq> ''Select Plot'' then
                (case plot polyfit (canvas w) ds plot_type x_label y_label of
                   (c, Some e) \<Rightarrow> (w\<lparr>canvas := c\<rparr>, Some e)
                 | (c, None) \<Rightarrow>
                     (case update_stats_table (stats_table w) ds of
                        (tbl, err) \<Rightarrow> (w\<lparr>canvas := c, stats_table := tbl\<rparr>, err)))
              else (w, None)))"

text \<open>
  \<open>load_files\<close>: \<open>file_names\<close> is what the file dialog returned and \<open>np_load\<close> what
  \<open>np.load\<close> does on each path, an array or an exception.  The list entry is added
  before the file is read.
\<close>

fun load_loop ::
  "(string \<Rightarrow> py_error + ndarray) \<Rightarrow> main_window \<Rightarrow> string list \<Rightarrow> main_window \<times> py_error option" where
  "load_loop np_load w [] = (w, None)"
| "load_loop np_load w (file_name # rest) =
     (let short_name = basename file_name;
          w1 = w\<lparr>dataset_selector := dataset_selector w @ [(short_name, False)]\<rparr>
      in case np_load file_name of
           Inl e \<Rightarrow> (w1, Some e)
         | Inr data \<Rightarrow> load_loop np_load (w1\<lparr>datasets := (datasets w1)(short_name \<mapsto> data)\<rparr>) rest)"

definition load_files ::
  "(string \<Rightarrow> py_error + ndarray) \<Rightarrow> polyfit \<Rightarrow> main_window \<Rightarrow> string list
     \<Rightarrow> main_window \<times> py_error option" where
  "load_files np_load polyfit w file_names =
     (case load_loop np_load w file_names of
        (w1, Some e) \<Rightarrow> (w1, Some e)
      | (w1, None) \<Rightarrow> update_plot polyfit w1)"

text \<open>Ticking or clearing the box of entry \<open>i\<close>, and choosing a plot type, both end in \<open>update_plot\<close>.\<close>

definition set_check_state ::
  "polyfit \<Rightarrow> nat \<Rightarrow> bool \<Rightarrow> main_window \<Rightarrow> main_window \<times> py_error option" where
  "set_check_state polyfit i b w =
     update_plot polyfit
       (w\<lparr>dataset_selector := (dataset_selector w)[i := (fst (dataset_selector w ! i), b)]\<rparr>)"

definition set_plot_type :: "polyfit \<Rightarrow> string \<Rightarrow> main_window \<Rightarrow> main_window \<times> py_error option" where
  "set_plot_type polyfit t w = update_plot polyfit (w\<lparr>plot_type_selector := t\<rparr>)"

text \<open>The window as \<open>__init__\<close> leaves it.\<close>

definition init_window :: main_window where
  "init_window =
     \<lparr>dataset_selector = [], datasets = Map.empty, plot_type_selector = ''Select Plot'',
      canvas = \<lparr>axes = cleared, draws = 0\<rparr>, stats_table = []\<rparr>"

subsection \<open>MainWindow.save\_pdf\<close>

text \<open>
  The file system holds directories and files; a file written through \<open>PdfPages\<close> is the
  list of its pages.
\<close>

datatype page = TextPage "string list" | ChartPage mpl_axes

record file_system =
  dirs :: "string set"
  files :: "string \<rightharpoonup> page list"

text \<open>
  What the outside world answers during one call of \<open>save_pdf\<close>: the directory
  \<open>tempfile.mkdtemp()\<close> creates, whether \<open>PdfPages(path)\<close>, the \<open>savefig\<close> of page
  \<open>i\<close>, \<open>pdf.close()\<close> and \<open>shutil.move\<close> raise, and the path chosen in the save
  dialog (empty when the dialog is cancelled).
\<close>

record pdf_env =
  mkdtemp :: "py_error + string"
  pdf_open :: "py_error option"
  savefig :: "nat \<Rightarrow> py_error option"
  pdf_close :: "py_error option"
  save_path :: string
  move :: "py_error option"

definition is_under :: "string \<Rightarrow> string \<Rightarrow> bool" where
  "is_under d p = (take (length d + 1) p = d @ ''/'')"

text \<open>\<open>shutil.rmtree(d)\<close>: the directory and every file below it are gone.\<close>

definition rmtree :: "string \<Rightarrow> file_system \<Rightarrow> file_system" where
  "rmtree d fs =
     fs\<lparr>dirs := dirs fs - {d}, files := (\<lambda>p. if is_under d p then None else files fs p)\<rparr>"

definition append_page :: "string \<Rightarrow> page \<Rightarrow> file_system \<Rightarrow> file_system" where
  "append_page path pg fs =
     fs\<lparr>files := (files fs)(path \<mapsto> (case files fs path of None \<Rightarrow> [] | Some pgs \<Rightarrow> pgs) @ [pg])\<rparr>"

definition shutil_move :: "string \<Rightarrow> string \<Rightarrow> file_system \<Rightarrow> file_system" where
  "shutil_move src dst fs = fs\<lparr>files := ((files fs)(src := None))(dst := files fs src)\<rparr>"

text \<open>\<open>str.capitalize\<close> on ASCII letters.\<close>

definition upper_char :: "char \<Rightarrow> char" where
  "upper_char c =
     (case map_of (zip ''abcdefghijklmnopqrstuvwxyz'' ''ABCDEFGHIJKLMNOPQRSTUVWXYZ'') c of
        None \<Rightarrow> c | Some u \<Rightarrow> u)"

definition lower_char :: "char \<Rightarrow> char" where
  "lower_char c =
     (case map_of (zip ''ABCDEFGHIJKLMNOPQRSTUVWXYZ'' ''abcdefghijklmnopqrstuvwxyz'') c of
        None \<Rightarrow> c | Some l \<Rightarrow> l)"

definition capitalize :: "string \<Rightarrow> string" where
  "capitalize s = (case s of [] \<Rightarrow> [] | c # cs \<Rightarrow> upper_char c # map lower_char cs)"

text \<open>The first page: a heading and one line per gathered dataset.\<close>

definition stats_line :: "dataset \<Rightarrow> string" where
  "stats_line d =
     (case d of (x_data, y_data, name) \<Rightarrow>
        name @ '': Mean = '' @ format_np (np_mean y_data) @
        '', Median = '' @ format_np (np_median y_data) @
        '', Std Dev = '' @ format_np (np_std y_data))"

definition stats_page :: "dataset list \<Rightarrow> page" where
  "stats_page ds = TextPage (''Detailed Statistics'' # map stats_line ds)"

text \<open>The body of the inner loop of the report, for one dataset.\<close>

definition report_one ::
  "polyfit \<Rightarrow> string \<Rightarrow> mpl_axes \<Rightarrow> real list \<Rightarrow> real list \<Rightarrow> string \<Rightarrow> mpl_axes \<times> py_error option" where
  "report_one polyfit plot_type ax x_data y_data name =
     (if plot_type = ''line'' then axes_plot ax (map Finite x_data) y_data [] (Some name)
      else if plot_type = ''hist'' then (axes_hist ax y_data 30 (1 / 2) name, None)
      else if plot_type = ''fft'' then
        (let N = length y_data;
             T = (if length x_data > 1 then x_data ! 1 - x_data ! 0 else 1)
         in case scipy_fft y_data of
              Inl e \<Rightarrow> (ax, Some e)
            | Inr yf \<Rightarrow>
                (let xf = take (N div 2) (fftfreq N T)
                 in axes_plot ax xf (map (\<lambda>c. 2 / real N * cmod c) (take (N div 2) yf)) []
                      (Some name)))
      else if plot_type = ''regression'' then
        (case polyfit x_data y_data of
           Inl e \<Rightarrow> (ax, Some e)
         | Inr (m, b) \<Rightarrow>
             (case axes_plot ax (map Finite x_data) y_data ''o'' (Some (name @ '' Data Points'')) of
                (ax1, Some e) \<Rightarrow> (ax1, Some e)
              | (ax1, None) \<Rightarrow>
                  axes_plot ax1 (map Finite x_data) (map (\<lambda>v. m * v + b) x_data) ''-''
                    (Some (name @ '' Fit''))))
      else (ax, None))"

fun report_loop ::
  "polyfit \<Rightarrow> string \<Rightarrow> mpl_axes \<Rightarrow> dataset list \<Rightarrow> mpl_axes \<times> py_error option" where
  "report_loop polyfit plot_type ax [] = (ax, None)"
| "report_loop polyfit plot_type ax ((x_data, y_data, name) # rest) =
     (case report_one polyfit plot_type ax x_data y_data name of
        (ax1, Some e) \<Rightarrow> (ax1, Some e)
      | (ax1, None) \<Rightarrow> report_loop polyfit plot_type ax1 rest)"

text \<open>One chart page: all gathered datasets on one chart, titled by the plot type, with a legend.\<close>

definition chart_page :: "polyfit \<Rightarrow> string \<Rightarrow> dataset list \<Rightarrow> py_error + page" where
  "chart_page polyfit plot_type ds =
     (case report_loop polyfit plot_type cleared ds of
        (ax, Some e) \<Rightarrow> Inl e
      | (ax, None) \<Rightarrow>
          Inr (ChartPage (axes_legend
            (ax\<lparr>title := ''Combined '' @ capitalize plot_type @ '' Plot'',
                xlabel := (if plot_type \<noteq> ''fft'' then ''Time'' else ''Frequency''),
                ylabel := (if plot_type \<noteq> ''hist'' then ''Amplitude'' else ''Frequency'')\<rparr>))))"

definition plot_types :: "string list" where
  "plot_types = [''line'', ''hist'', ''fft'', ''regression'']"

text \<open>The loop over the plot types; page \<open>i\<close> is the next page of the document.\<close>

fun pages_loop ::
  "polyfit \<Rightarrow> pdf_env \<Rightarrow> dataset list \<Rightarrow> string \<Rightarrow> nat \<Rightarrow> string list \<Rightarrow> file_system
     \<Rightarrow> file_system \<times> py_error option" where
  "pages_loop polyfit env ds path i [] fs = (fs, None)"
| "pages_loop polyfit env ds path i (plot_type # rest) fs =
     (case chart_page polyfit plot_type ds of
        Inl e \<Rightarrow> (fs, Some e)
      | Inr pg \<Rightarrow>
          (case savefig env i of
             Some e \<Rightarrow> (fs, Some e)
           | None \<Rightarrow> pages_loop polyfit env ds path (Suc i) rest (append_page path pg fs)))"

text \<open>The \<open>try\<close> block of \<open>save_pdf\<close>.\<close>

definition report_body ::
  "polyfit \<Rightarrow> pdf_env \<Rightarrow> main_window \<Rightarrow> string \<Rightarrow> file_system \<Rightarrow> file_system \<times> py_error option" where
  "report_body polyfit env w pdf_file_path fs =
     (case gather (datasets w) (dataset_selector w) of
        Inl e \<Rightarrow> (fs, Some e)
      | Inr ds \<Rightarrow>
          (case savefig env 0 of
             Some e \<Rightarrow> (fs, Some e)
           | None \<Rightarrow>
               (case pages_loop polyfit env ds pdf_file_path 1 plot_types
                       (append_page pdf_file_path (stats_page ds) fs) of
                  (fs1, Some e) \<Rightarrow> (fs1, Some e)
                | (fs1, None) \<Rightarrow>
                    (case pdf_close env of
                       Some e \<Rightarrow> (fs1, Some e)
                     | None \<Rightarrow>
                         if save_path env \<noteq> [] then
                           (case move env of
                              Some e \<Rightarrow> (fs1, Some e)
                            | None \<Rightarrow> (shutil_move pdf_file_path (save_path env) fs1, None))
                         else (fs1, None)))))"

text \<open>
  \<open>save_pdf\<close>: the directory is made and the \<open>PdfPages\<close> object constructed before the
  \<open>try\<close>; the \<open>finally\<close> clause removes the directory after the block, whatever
  the block did.
\<close>

definition save_pdf ::
  "polyfit \<Rightarrow> pdf_env \<Rightarrow> main_window \<Rightarrow> file_system \<Rightarrow> file_system \<times> py_error option" where
  "save_pdf polyfit env w fs =
     (case mkdtemp env of
        Inl e \<Rightarrow> (fs, Some e)
      | Inr temp_dir \<Rightarrow>
          (let fs1 = fs\<lparr>dirs := insert temp_dir (dirs fs)\<rparr>;
               pdf_file_path = temp_dir @ ''/'' @ ''analysis_report.pdf''
           in case pdf_open env of
                Some e \<Rightarrow> (fs1, Some e)
              | None \<Rightarrow>
                  (case report_body polyfit env w pdf_file_path
                          (fs1\<lparr>files := (files fs1)(pdf_file_path \<mapsto> [])\<rparr>) of
                     (fs2, err) \<Rightarrow> (rmtree temp_dir fs2, err))))"

section \<open>Real-time acquisition (main.py)\<close>

text \<open>
  The worker with the sequence of \<open>np.save\<close> calls made so far (file name and saved
  series) and the series emitted to the window.  Readings of \<open>time.time()\<close> are
  arguments.
\<close>

record plot_worker =
  amplitude :: real
  offset :: real
  frequency :: real
  running :: bool
  data :: "(real \<times> real) list"
  np_saves :: "(string \<times> (real \<times> real) list) list"
  emitted :: "(real list \<times> real list) list"

text \<open>\<open>int(t)\<close> truncates towards zero.\<close>

definition py_int :: "real \<Rightarrow> int" where
  "py_int t = (if 0 \<le> t then \<lfloor>t\<rfloor> else \<lceil>t\<rceil>)"

definition save_data :: "real \<Rightarrow> plot_worker \<Rightarrow> plot_worker" where
  "save_data now w =
     (let timestamp = py_int now;
          filename = ''data_'' @ str_int timestamp @ ''.npy''
      in w\<lparr>np_saves := np_saves w @ [(filename, data w)]\<rparr>)"

definition stop :: "real \<Rightarrow> plot_worker \<Rightarrow> plot_worker" where
  "stop now w = save_data now (w\<lparr>running := False\<rparr>)"

text \<open>
  One turn of the loop of \<open>run\<close>, with the four readings of the clock it may take
  (lines 40, 45, 56 and 47); the result carries the new \<open>last_save_time\<close>.
\<close>

definition run_iteration ::
  "real \<Rightarrow> real \<Rightarrow> real \<Rightarrow> real \<Rightarrow> real \<Rightarrow> plot_worker \<times> real \<Rightarrow> plot_worker \<times> real" where
  "run_iteration start_time t_sample t_check t_save t_after st =
     (case st of (w, last_save_time) \<Rightarrow>
        (let current_time = t_sample - start_time;
             w1 = w\<lparr>data := data w @
                    [(current_time, amplitude w * sin (frequency w * current_time) + offset w)]\<rparr>;
             w2 = w1\<lparr>emitted := emitted w1 @ [(map fst (data w1), map snd (data w1))]\<rparr>
         in if t_check - last_save_time \<ge> 60 then (save_data t_save w2, t_after)
            else (w2, last_save_time)))"

section \<open>Example inputs\<close>

text \<open>
  An instance of the parameter \<open>polyfit\<close>: the least-squares line through points whose
  abscissae are not all equal, and the TypeError of \<open>np.polyfit\<close> on empty or unequal
  vectors.
\<close>

definition ols_polyfit :: polyfit where
  "ols_polyfit x y =
     (if x = [] \<or> length x \<noteq> length y then Inl TypeError
      else let n = real (length x); sx = sum_list x; sy = sum_list y;
               sxx = sum_list (map (\<lambda>v. v * v) x); sxy = sum_list (map2 (*) x y);
               m = (n * sxy - sx * sy) / (n * sxx - sx * sx)
           in Inr (m, (sy - m * sx) / n))"

text \<open>The datasets A and B of the scenario, rows of (x, y), and a second file named A.\<close>

definition dataset_A :: ndarray where
  "dataset_A = [[0, 0], [1, 1], [2, 0]]"

definition dataset_B :: ndarray where
  "dataset_B = [[0, 2], [1, 1], [2, 2]]"

definition dataset_A2 :: ndarray where
  "dataset_A2 = [[0, 5], [1, 7]]"

definition example_np_load :: "string \<Rightarrow> py_error + ndarray" where
  "example_np_load p =
     (if p = ''/data/A'' then Inr dataset_A
      else if p = ''/data/B'' then Inr dataset_B
      else if p = ''/other/A'' then Inr dataset_A2
      else Inl OSError)"

text \<open>A and B loaded and ticked, plot type \<open>line\<close> chosen.\<close>

definition scenario_window :: main_window where
  "scenario_window =
     init_window\<lparr>dataset_selector := [(''A'', True), (''B'', True)],
                 datasets := [''A'' \<mapsto> dataset_A, ''B'' \<mapsto> dataset_B],
                 plot_type_selector := ''line''\<rparr>"

text \<open>A loaded and not ticked.\<close>

definition unticked_window :: main_window where
  "unticked_window =
     init_window\<lparr>dataset_selector := [(''A'', False)], datasets := [''A'' \<mapsto> dataset_A]\<rparr>"

text \<open>A loaded and ticked, plot type \<open>hist\<close> chosen.\<close>

definition hist_window :: main_window where
  "hist_window =
     init_window\<lparr>dataset_selector := [(''A'', True)], datasets := [''A'' \<mapsto> dataset_A],
                 plot_type_selector := ''hist''\<rparr>"

text \<open>
  A dataset of one sample, one of two samples and one whose first two abscissae are
  equal, all ticked, plot type \<open>fft\<close> chosen.
\<close>

definition dataset_S :: ndarray where
  "dataset_S = [[5, 3]]"

definition dataset_T :: ndarray where
  "dataset_T = [[0, 1], [1 / 2, 3]]"

definition dataset_Z :: ndarray where
  "dataset_Z = [[1, 1], [1, 3], [2, 5], [3, 7]]"

definition spectrum_window :: main_window where
  "spectrum_window =
     init_window\<lparr>dataset_selector := [(''S'', True), (''T'', True), (''Z'', True)],
                 datasets := [''S'' \<mapsto> dataset_S, ''T'' \<mapsto> dataset_T, ''Z'' \<mapsto> dataset_Z],
                 plot_type_selector := ''fft''\<rparr>"

definition empty_fs :: file_system where
  "empty_fs = \<lparr>dirs = {}, files = Map.empty\<rparr>"

text \<open>A call of \<open>save_pdf\<close> in which nothing raises, and one in which \<open>PdfPages\<close> does.\<close>

definition good_env :: pdf_env where
  "good_env =
     \<lparr>mkdtemp = Inr ''/tmp/tmpq1'', pdf_open = None, savefig = (\<lambda>i. None), pdf_close = None,
      save_path = ''/home/u/report.pdf'', move = None\<rparr>"

definition open_fails_env :: pdf_env where
  "open_fails_env = good_env\<lparr>pdf_open := Some OSError\<rparr>"

text \<open>The labels a page shows: the lines of a text page, the artists of a chart.\<close>

definition page_labels :: "page \<Rightarrow> string list" where
  "page_labels pg =
     (case pg of TextPage ls \<Rightarrow> ls
      | ChartPage ax \<Rightarrow> map label (lines ax) @ map hist_label (patches ax))"

section \<open>Properties of the data analysis tool\<close>

subsection \<open>Loading files\<close>

lemma update_plot_registry:
  "datasets (fst (update_plot pf w)) = datasets w \<and>
   dataset_selector (fst (update_plot pf w)) = dataset_selector w \<and>
   plot_type_selector (fst (update_plot pf w)) = plot_type_selector w"
  by (auto simp: update_plot_def Let_def split: sum.splits prod.splits option.splits)

lemma load_loop_append:
  "load_loop np w (fs @ gs) =
     (case load_loop np w fs of (w1, Some e) \<Rightarrow> (w1, Some e) | (w1, None) \<Rightarrow> load_loop np w1 gs)"
  by (induction fs arbitrary: w) (auto simp: Let_def split: sum.splits)

lemma load_loop_ok:
  assumes "\<forall>f\<in>set fs. \<exists>d. np f = Inr d"
  shows "snd (load_loop np w fs) = None \<and>
         dataset_selector (fst (load_loop np w fs)) =
           dataset_selector w @ map (\<lambda>f. (basename f, False)) fs \<and>
         plot_type_selector (fst (load_loop np w fs)) = plot_type_selector w \<and>
         canvas (fst (load_loop np w fs)) = canvas w \<and>
         stats_table (fst (load_loop np w fs)) = stats_table w"
  using assms by (induction fs arbitrary: w) (auto simp: Let_def split: sum.splits)

lemma load_loop_registry:
  assumes "\<forall>f\<in>set fs. \<exists>d. np f = Inr d"
  shows "datasets (fst (load_loop np w fs)) n =
           (if n \<in> basename ` set fs
            then (case np (last (filter (\<lambda>f. basename f = n) fs)) of Inr d \<Rightarrow> Some d | Inl e \<Rightarrow> None)
            else datasets w n)"
  using assms
proof (induction fs arbitrary: w)
  case Nil
  then show ?case by simp
next
  case (Cons f fs)
  then obtain d where d: "np f = Inr d" by auto
  show ?case using Cons d
    by (auto simp: Let_def filter_empty_conv image_iff)
qed

text \<open>
  C7.  When every file of a batch decodes, the registry after \<open>load_files\<close> holds, under
  each base name used in the batch, the array of the last file of the batch with that base
  name, and is unchanged at every other name; the registry being a dictionary, there is
  one entry per name.  The starting window is arbitrary, so the statement covers any
  sequence of loads.
\<close>

theorem load_files_registry:
  assumes "\<forall>f\<in>set file_names. \<exists>d. np_load f = Inr d"
  shows "datasets (fst (load_files np_load polyfit w file_names)) n =
           (if n \<in> basename ` set file_names
            then (case np_load (last (filter (\<lambda>f. basename f = n) file_names)) of
                    Inr d \<Rightarrow> Some d | Inl e \<Rightarrow> None)
            else datasets w n)"
proof -
  have ok: "snd (load_loop np_load w file_names) = None"
    using load_loop_ok [OF assms] by blast
  then have "load_files np_load polyfit w file_names =
               update_plot polyfit (fst (load_loop np_load w file_names))"
    by (cases "load_loop np_load w file_names") (simp add: load_files_def)
  then show ?thesis
    using load_loop_registry [OF assms, of w n] update_plot_registry by simp
qed

theorem load_files_registry_witness:
  "example_np_load ''/data/A'' = Inr dataset_A \<and>
   example_np_load ''/data/B'' = Inr dataset_B \<and>
   example_np_load ''/other/A'' = Inr dataset_A2 \<and>
   datasets (fst (load_files example_np_load ols_polyfit init_window
                    [''/data/A'', ''/data/B'', ''/other/A''])) ''A'' = Some dataset_A2 \<and>
   datasets (fst (load_files example_np_load ols_polyfit init_window
                    [''/data/A'', ''/data/B'', ''/other/A''])) ''B'' = Some dataset_B \<and>
   datasets (fst (load_files example_np_load ols_polyfit init_window
                    [''/data/A'', ''/data/B'', ''/other/A''])) ''C'' = None"
proof -
  have h: "\<forall>f\<in>set [''/data/A'', ''/data/B'', ''/other/A'']. \<exists>d. example_np_load f = Inr d"
    by (simp add: example_np_load_def)
  have vals: "example_np_load ''/data/A'' = Inr dataset_A"
    "example_np_load ''/data/B'' = Inr dataset_B"
    "example_np_load ''/other/A'' = Inr dataset_A2"
    by (simp_all add: example_np_load_def)
  show ?thesis
    using load_files_registry [OF h, of ols_polyfit init_window "''A''"]
      load_files_registry [OF h, of ols_polyfit init_window "''B''"]
      load_files_registry [OF h, of ols_polyfit init_window "''C''"]
    by (simp add: vals basename_def init_window_def)
qed

text \<open>
  C2, as stated, fails: in the batch \<open>[bad.npy, B]\<close> the file B decodes, yet after
  \<open>load_files\<close> the registry has no entry for it, because the exception of \<open>np.load\<close>
  on the first file leaves the loop.
\<close>

theorem malformed_file_aborts_batch:
  "example_np_load ''/data/B'' = Inr dataset_B \<and>
   ''/data/B'' \<in> set [''/data/bad.npy'', ''/data/B''] \<and>
   datasets (fst (load_files example_np_load ols_polyfit init_window
                    [''/data/bad.npy'', ''/data/B''])) (basename ''/data/B'') = None"
  by (simp add: example_np_load_def load_files_def Let_def init_window_def)

text \<open>
  C2, amended.  \<open>load_files\<close> takes the files in order and stops at the first file that
  \<open>np.load\<close> cannot decode: the exception leaves \<open>load_files\<close>, the list has an entry
  for every file up to and including the failing one, and the registry holds the files
  before the failing one (latest array per base name) and nothing of the failing file or
  of the files after it.
\<close>

theorem load_files_stops_at_first_failure:
  assumes "\<forall>f\<in>set pre. \<exists>d. np_load f = Inr d" and "np_load bad = Inl e"
  shows "snd (load_files np_load polyfit w (pre @ bad # post)) = Some e \<and>
         dataset_selector (fst (load_files np_load polyfit w (pre @ bad # post))) =
           dataset_selector w @ map (\<lambda>f. (basename f, False)) (pre @ [bad]) \<and>
         datasets (fst (load_files np_load polyfit w (pre @ bad # post))) n =
           (if n \<in> basename ` set pre
            then (case np_load (last (filter (\<lambda>f. basename f = n) pre)) of
                    Inr d \<Rightarrow> Some d | Inl e \<Rightarrow> None)
            else datasets w n)"
proof -
  obtain w1 where w1: "load_loop np_load w pre = (w1, None)"
    using load_loop_ok [OF assms(1), of w] by (cases "load_loop np_load w pre") auto
  have sel: "dataset_selector w1 = dataset_selector w @ map (\<lambda>f. (basename f, False)) pre"
    using load_loop_ok [OF assms(1), of w] w1 by simp
  have reg: "datasets w1 n =
           (if n \<in> basename ` set pre
            then (case np_load (last (filter (\<lambda>f. basename f = n) pre)) of
                    Inr d \<Rightarrow> Some d | Inl e \<Rightarrow> None)
            else datasets w n)"
    using load_loop_registry [OF assms(1), of w n] w1 by simp
  have "load_loop np_load w (pre @ bad # post) =
          (w1\<lparr>dataset_selector := dataset_selector w1 @ [(basename bad, False)]\<rparr>, Some e)"
    by (simp add: load_loop_append w1 assms(2) Let_def)
  then show ?thesis
    using sel reg by (simp add: load_files_def)
qed

theorem load_files_stops_at_first_failure_witness:
  "example_np_load ''/data/A'' = Inr dataset_A \<and>
   example_np_load ''/data/bad.npy'' = Inl OSError \<and>
   snd (load_files example_np_load ols_polyfit init_window
          ([''/data/A''] @ ''/data/bad.npy'' # [''/data/B''])) = Some OSError \<and>
   dataset_selector (fst (load_files example_np_load ols_polyfit init_window
          ([''/data/A''] @ ''/data/bad.npy'' # [''/data/B'']))) =
     [(''A'', False), (''bad.npy'', False)] \<and>
   datasets (fst (load_files example_np_load ols_polyfit init_window
          ([''/data/A''] @ ''/data/bad.npy'' # [''/data/B'']))) ''B'' = None"
proof -
  have h1: "\<forall>f\<in>set [''/data/A'']. \<exists>d. example_np_load f = Inr d"
    by (simp add: example_np_load_def)
  have h2: "example_np_load ''/data/bad.npy'' = Inl OSError"
    by (simp add: example_np_load_def)
  have h0: "example_np_load ''/data/A'' = Inr dataset_A"
    by (simp add: example_np_load_def)
  show ?thesis
    using h0 h2
      load_files_stops_at_first_failure [OF h1 h2, of ols_polyfit init_window "[''/data/B'']" "''B''"]
    by (simp add: basename_def init_window_def)
qed

subsection \<open>The plot type \<open>Select Plot\<close>\<close>

text \<open>
  C6.  With \<open>Select Plot\<close> chosen, \<open>update_plot\<close> returns the window as it was: the
  chart, its draw count and the statistics table are untouched, whatever the registry and
  the ticked entries are (also when unpacking a ticked dataset raises).
\<close>

theorem select_plot_does_nothing:
  assumes "plot_type_selector w = ''Select Plot''"
  shows "fst (update_plot polyfit w) = w"
  using assms by (simp add: update_plot_def Let_def split: sum.splits)

theorem select_plot_does_nothing_witness:
  "plot_type_selector (scenario_window\<lparr>plot_type_selector := ''Select Plot''\<rparr>) = ''Select Plot'' \<and>
   fst (update_plot ols_polyfit (scenario_window\<lparr>plot_type_selector := ''Select Plot''\<rparr>)) =
     scenario_window\<lparr>plot_type_selector := ''Select Plot''\<rparr>"
  using select_plot_does_nothing
          [of "scenario_window\<lparr>plot_type_selector := ''Select Plot''\<rparr>" ols_polyfit]
  by simp

subsection \<open>Collecting the ticked datasets\<close>

lemma unpack2_zip_star:
  assumes "unpack2 (zip_star rows) = Inr (x, y)"
  shows "rows \<noteq> [] \<and> length x = length rows \<and> length y = length rows"
proof -
  have cols: "zip_star rows = [x, y]"
    using assms by (auto simp: unpack2_def split: list.splits)
  then have ne: "rows \<noteq> []" by (auto simp: zip_star_def)
  have "\<forall>c\<in>set (zip_star rows). length c = length rows"
    by (auto simp: zip_star_def)
  then show ?thesis using cols ne by simp
qed

lemma gather_wf:
  assumes "gather reg entries = Inr ds"
  shows "\<forall>d\<in>set ds. length (fst d) = length (fst (snd d)) \<and> fst (snd d) \<noteq> []"
  using assms
proof (induction entries arbitrary: ds)
  case Nil
  then show ?case by simp
next
  case (Cons e entries)
  obtain name checked where e: "e = (name, checked)" by (cases e) auto
  show ?case
    using Cons e
    by (fastforce split: if_splits option.splits sum.splits dest!: unpack2_zip_star)
qed

lemma gather_names:
  assumes "gather reg entries = Inr ds"
  shows "map (\<lambda>d. snd (snd d)) ds = filter (\<lambda>n. n \<in> dom reg) (map fst (filter snd entries))"
  using assms
proof (induction entries arbitrary: ds)
  case Nil
  then show ?case by simp
next
  case (Cons e entries)
  obtain name checked where e: "e = (name, checked)" by (cases e) auto
  show ?case
    using Cons e
    by (auto split: if_splits option.splits sum.splits)
qed

lemma gather_same_name:
  assumes "reg n = Some d" and "unpack2 (zip_star d) = Inr (x, y)"
  shows "gather reg (map (\<lambda>(m, c). (m, m = n)) entries) =
           Inr (replicate (length (filter (\<lambda>(m, c). m = n) entries)) (x, y, n))"
  using assms by (induction entries) (auto split: prod.splits)


text \<open>What \<open>plot\<close> leaves on the canvas when its loop raised nothing.\<close>

lemma plot_after_loop:
  assumes "plot_loop pf pt cleared ds = (ax, None)"
  shows "snd (plot pf c ds pt xl yl) = None \<and>
         lines (axes (fst (plot pf c ds pt xl yl))) = lines ax \<and>
         patches (axes (fst (plot pf c ds pt xl yl))) = patches ax \<and>
         xlabel (axes (fst (plot pf c ds pt xl yl))) = xl \<and>
         ylabel (axes (fst (plot pf c ds pt xl yl))) = yl \<and>
         draws (fst (plot pf c ds pt xl yl)) = draws c + 1"
  by (simp add: plot_def assms Let_def axes_legend_def)


subsection \<open>The legend\<close>

text \<open>A chart of lines gets its legend, one entry per dataset whose name may be shown.\<close>

lemma plot_loop_line:
  assumes "\<forall>d\<in>set ds. length (fst d) = length (fst (snd d))"
  shows "plot_loop pf ''line'' ax ds =
           (ax\<lparr>lines := lines ax @
                map (\<lambda>(x, y, n). \<lparr>xdata = map Finite x, ydata = y, fmt = [], label = n\<rparr>) ds\<rparr>, None)"
  using assms by (induction ds arbitrary: ax) (auto simp: plot_one_def axes_plot_def)

lemma line_plot_gets_legend:
  assumes "\<forall>d\<in>set ds. length (fst d) = length (fst (snd d))" and "ds \<noteq> []"
    and "\<forall>d\<in>set ds. snd (snd d) \<noteq> ''_nolegend_''"
  shows "snd (plot pf c ds ''line'' xl yl) = None \<and>
         legend (axes (fst (plot pf c ds ''line'' xl yl))) =
           Some (filter shown_label (map (\<lambda>d. snd (snd d)) ds))"
proof -
  obtain x y n where d: "(x, y, n) \<in> set ds" using assms(2) by (cases ds) auto
  have "any_line_labelled
          (cleared\<lparr>lines := map (\<lambda>(x, y, n). \<lparr>xdata = map Finite x, ydata = y, fmt = [], label = n\<rparr>) ds,
                   xlabel := xl, ylabel := yl\<rparr>)"
    using d assms(3) by (force simp: any_line_labelled_def list_ex_iff cleared_def)
  then show ?thesis
    by (simp add: plot_def plot_loop_line [OF assms(1)] Let_def axes_legend_def cleared_def
        split_def comp_def)
qed

text \<open>A histogram never does.\<close>

lemma plot_loop_hist:
  "plot_loop pf ''hist'' ax ds =
     (ax\<lparr>patches := patches ax @
          map (\<lambda>(x, y, n). \<lparr>hist_data = y, bins = 30, alpha = 1 / 2, hist_label = n\<rparr>) ds\<rparr>, None)"
  by (induction ds arbitrary: ax) (auto simp: plot_one_def axes_hist_def)

lemma hist_plot_never_gets_legend:
  "snd (plot pf c ds ''hist'' xl yl) = None \<and>
   legend (axes (fst (plot pf c ds ''hist'' xl yl))) = None \<and>
   map hist_label (patches (axes (fst (plot pf c ds ''hist'' xl yl)))) = map (\<lambda>d. snd (snd d)) ds"
  by (simp add: plot_def plot_loop_hist Let_def any_line_labelled_def cleared_def
      split_def comp_def)

text \<open>The report draws the same histogram and does give it a legend.\<close>

lemma report_loop_hist:
  "report_loop pf ''hist'' ax ds =
     (ax\<lparr>patches := patches ax @
          map (\<lambda>(x, y, n). \<lparr>hist_data = y, bins = 30, alpha = 1 / 2, hist_label = n\<rparr>) ds\<rparr>, None)"
  by (induction ds arbitrary: ax) (auto simp: report_one_def axes_hist_def)

lemma report_hist_page_has_legend:
  "\<exists>ax. chart_page pf ''hist'' ds = Inr (ChartPage ax) \<and>
        legend ax = Some (filter shown_label (map (\<lambda>d. snd (snd d)) ds))"
  by (simp add: chart_page_def report_loop_hist axes_legend_def cleared_def split_def comp_def)

lemma unpack_A: "unpack2 (zip_star dataset_A) = Inr ([0, 1, 2], [0, 1, 0])"
  by (simp add: dataset_A_def zip_star_def unpack2_def upt_rec)

lemma unpack_B: "unpack2 (zip_star dataset_B) = Inr ([0, 1, 2], [2, 1, 2])"
  by (simp add: dataset_B_def zip_star_def unpack2_def upt_rec)

text \<open>
  C8 fails on the code.  With the dataset A ticked and the plot type \<open>hist\<close>,
  \<open>update_plot\<close> succeeds and draws the bars labelled A, and the chart has no legend:
  the test before \<open>self.axes.legend()\<close> looks at the lines of the axes, and a histogram
  adds none.
\<close>

theorem histogram_gets_no_legend:
  "snd (update_plot ols_polyfit hist_window) = None \<and>
   map hist_label (patches (axes (canvas (fst (update_plot ols_polyfit hist_window))))) = [''A''] \<and>
   legend (axes (canvas (fst (update_plot ols_polyfit hist_window)))) = None"
proof -
  have g: "gather (datasets hist_window) (dataset_selector hist_window) =
             Inr [([0, 1, 2], [0, 1, 0], ''A'')]"
    by (simp add: hist_window_def init_window_def unpack_A)
  have m: "plot_type_selector hist_window = ''hist''"
    by (simp add: hist_window_def init_window_def)
  obtain c where c: "plot ols_polyfit (canvas hist_window) [([0, 1, 2], [0, 1, 0], ''A'')]
                       ''hist'' ''Time'' ''Frequency'' = (c, None)"
    using hist_plot_never_gets_legend [of ols_polyfit "canvas hist_window" "[([0, 1, 2], [0, 1, 0], ''A'')]" "''Time''" "''Frequency''"]
    by (cases "plot ols_polyfit (canvas hist_window) [([0, 1, 2], [0, 1, 0], ''A'')]
                       ''hist'' ''Time'' ''Frequency''") auto
  have cl: "legend (axes c) = None" "map hist_label (patches (axes c)) = [''A'']"
    using hist_plot_never_gets_legend [of ols_polyfit "canvas hist_window" "[([0, 1, 2], [0, 1, 0], ''A'')]" "''Time''" "''Frequency''"] c
    by simp_all
  obtain tbl where s: "update_stats_table (stats_table hist_window)
                          [([0, 1, 2], [0, 1, 0], ''A'')] = (tbl, None)"
    by (simp add: update_stats_table_def statistics_median_def Let_def)
  show ?thesis
    using cl by (simp add: update_plot_def g m c s Let_def)
qed

subsection \<open>The statistics table\<close>

lemma stats_rows_ok:
  assumes "\<forall>d\<in>set ds. fst (snd d) \<noteq> []" and "i + length ds \<le> length tbl"
  shows "stats_rows i ds tbl =
           (take i tbl @
            map (\<lambda>(x, y, name). [name, format_np (np_mean y), format_2f (middle y),
                                 format_np (np_std y)]) ds @
            drop (i + length ds) tbl, None)"
  using assms
proof (induction ds arbitrary: i tbl)
  case Nil
  then show ?case by simp
next
  case (Cons d ds)
  obtain x y name where d: "d = (x, y, name)" by (cases d) auto
  have y: "y \<noteq> []" using Cons.prems(1) d by simp
  have i: "i < length tbl" using Cons.prems(2) by simp
  let ?row = "[name, format_np (np_mean y), format_2f (middle y), format_np (np_std y)]"
  have step: "stats_rows i (d # ds) tbl = stats_rows (Suc i) ds (tbl[i := ?row])"
    using y by (simp add: d statistics_median_def Let_def)
  have ih: "stats_rows (Suc i) ds (tbl[i := ?row]) =
              (take (Suc i) (tbl[i := ?row]) @
               map (\<lambda>(x, y, name). [name, format_np (np_mean y), format_2f (middle y),
                                    format_np (np_std y)]) ds @
               drop (Suc i + length ds) (tbl[i := ?row]), None)"
    using Cons.IH [of "Suc i" "tbl[i := ?row]"] Cons.prems by simp
  have t: "take (Suc i) (tbl[i := ?row]) = take i tbl @ [?row]"
    using i by (simp add: take_Suc_conv_app_nth)
  have dr: "drop (Suc i + length ds) (tbl[i := ?row]) = drop (Suc i + length ds) tbl"
    by simp
  show ?case
    by (simp only: step ih t dr) (simp add: d)
qed

lemma update_stats_table_ok:
  assumes "\<forall>d\<in>set ds. fst (snd d) \<noteq> []"
  shows "update_stats_table tbl ds =
           (map (\<lambda>(x, y, name). [name, format_np (np_mean y), format_2f (middle y),
                                 format_np (np_std y)]) ds, None)"
  using stats_rows_ok [OF assms, of 0 "set_row_count (length ds) tbl"]
  by (simp add: update_stats_table_def set_row_count_def)

lemma format_2f_between:
  assumes "0 \<le> v" and "real k \<le> 100 * v" and "100 * v < real k + 1 / 2"
  shows "format_2f v =
           str_nat (k div 100) @ ''.'' @ [digit_char (k div 10 mod 10), digit_char (k mod 10)]"
proof -
  have fl: "\<lfloor>100 * v\<rfloor> = int k"
    using assms by (intro floor_unique) auto
  have "round_half_even (100 * \<bar>v\<bar>) = int k"
    using assms fl by (simp add: round_half_even_def Let_def)
  then show ?thesis
    using assms(1) by (simp add: format_2f_def Let_def)
qed

lemma sqrt_two_ninths: "47 / 100 \<le> sqrt (2 / 9)" "sqrt (2 / 9) < 475 / 1000"
proof -
  show "47 / 100 \<le> sqrt (2 / 9)"
    by (rule real_le_rsqrt) (simp add: power2_eq_square)
  show "sqrt (2 / 9) < 475 / 1000"
    by (rule real_less_lsqrt) (simp_all add: power2_eq_square)
qed

lemma format_std: "format_2f (sqrt (2 / 9)) = ''0.47''"
  using format_2f_between [of "sqrt (2 / 9)" 47] sqrt_two_ninths
  by (simp add: str_nat.simps digit_char_def)

lemma std_A: "np_std [0, 1, 0] = Some (sqrt (2 / 9))"
  by (simp add: np_std_def Let_def power2_eq_square)

lemma std_B: "np_std [2, 1, 2] = Some (sqrt (2 / 9))"
  by (simp add: np_std_def Let_def power2_eq_square)

lemma row_A:
  "[''A'', format_np (np_mean [0, 1, 0]), format_2f (middle [0, 1, 0]), format_np (np_std [0, 1, 0])] =
   [''A'', ''0.33'', ''0.00'', ''0.47'']"
  by (simp add: std_A format_np_def format_std)
     (simp add: np_mean_def middle_def format_2f_def round_half_even_def Let_def
        str_nat.simps digit_char_def)

lemma row_B:
  "[''B'', format_np (np_mean [2, 1, 2]), format_2f (middle [2, 1, 2]), format_np (np_std [2, 1, 2])] =
   [''B'', ''1.67'', ''2.00'', ''0.47'']"
  by (simp add: std_B format_np_def format_std)
     (simp add: np_mean_def middle_def format_2f_def round_half_even_def Let_def
        str_nat.simps digit_char_def)


lemma stats_rows_length: "length (fst (stats_rows i ds tbl)) = length tbl"
  by (induction ds arbitrary: i tbl) (auto simp: Let_def split: sum.splits)

lemma update_stats_table_length: "length (fst (update_stats_table tbl ds)) = length ds"
  by (simp add: update_stats_table_def stats_rows_length set_row_count_def)

text \<open>
  C4.  \<open>update_stats_table\<close> writes one row per dataset handed to it (the ticked entries
  found in the registry, whose \<open>y\<close> is never empty): the name, then the mean, the median
  and the population standard deviation of \<open>y\<close>, each in the format \<open>.2f\<close>.  In the
  scenario (A and B ticked, plot type \<open>line\<close>) \<open>update_plot\<close> succeeds and the table
  is \<open>(A, 0.33, 0.00, 0.47)\<close>, \<open>(B, 1.67, 2.00, 0.47)\<close>.
\<close>

theorem statistics_rows:
  assumes "\<forall>d\<in>set ds. fst (snd d) \<noteq> []"
  shows "update_stats_table tbl ds =
           (map (\<lambda>(x, y, name).
                  [name,
                   format_2f (sum_list y / real (length y)),
                   format_2f (middle y),
                   format_2f (sqrt (sum_list (map (\<lambda>v. (v - sum_list y / real (length y))\<^sup>2) y) /
                                    real (length y)))]) ds, None) \<and>
         update_plot polyfit scenario_window =
           (scenario_window
              \<lparr>canvas := fst (plot polyfit (canvas scenario_window)
                                [([0, 1, 2], [0, 1, 0], ''A''), ([0, 1, 2], [2, 1, 2], ''B'')]
                                ''line'' ''Time'' ''Amplitude''),
               stats_table := [[''A'', ''0.33'', ''0.00'', ''0.47''],
                               [''B'', ''1.67'', ''2.00'', ''0.47'']]\<rparr>, None)"
proof -
  have rows: "map (\<lambda>(x, y, name). [name, format_np (np_mean y), format_2f (middle y),
                                   format_np (np_std y)]) ds =
        map (\<lambda>(x, y, name).
                  [name,
                   format_2f (sum_list y / real (length y)),
                   format_2f (middle y),
                   format_2f (sqrt (sum_list (map (\<lambda>v. (v - sum_list y / real (length y))\<^sup>2) y) /
                                    real (length y)))]) ds"
    using assms by (intro map_cong) (auto simp: format_np_def np_mean_def np_std_def Let_def)
  have general: "update_stats_table tbl ds =
           (map (\<lambda>(x, y, name).
                  [name,
                   format_2f (sum_list y / real (length y)),
                   format_2f (middle y),
                   format_2f (sqrt (sum_list (map (\<lambda>v. (v - sum_list y / real (length y))\<^sup>2) y) /
                                    real (length y)))]) ds, None)"
    using update_stats_table_ok [OF assms, of tbl] rows by simp
  let ?ds = "[([0, 1, 2], [0, 1, 0], ''A''), ([0, 1, 2], [2, 1, 2], ''B'')] :: dataset list"
  have g: "gather (datasets scenario_window) (dataset_selector scenario_window) = Inr ?ds"
    by (simp add: scenario_window_def init_window_def unpack_A unpack_B)
  have m: "plot_type_selector scenario_window = ''line''"
    by (simp add: scenario_window_def init_window_def)
  have p: "snd (plot polyfit (canvas scenario_window) ?ds ''line'' ''Time'' ''Amplitude'') = None"
    by (simp add: plot_def plot_one_def axes_plot_def Let_def)
  have t: "update_stats_table (stats_table scenario_window) ?ds =
             ([[''A'', ''0.33'', ''0.00'', ''0.47''], [''B'', ''1.67'', ''2.00'', ''0.47'']], None)"
    using update_stats_table_ok [of ?ds "stats_table scenario_window"] row_A row_B by simp
  have scenario: "update_plot polyfit scenario_window =
           (scenario_window
              \<lparr>canvas := fst (plot polyfit (canvas scenario_window) ?ds
                                ''line'' ''Time'' ''Amplitude''),
               stats_table := [[''A'', ''0.33'', ''0.00'', ''0.47''],
                               [''B'', ''1.67'', ''2.00'', ''0.47'']]\<rparr>, None)"
    using p by (cases "plot polyfit (canvas scenario_window) ?ds ''line'' ''Time'' ''Amplitude''")
      (simp add: update_plot_def g m t Let_def)
  show ?thesis using general scenario by (rule conjI)
qed

theorem statistics_rows_witness:
  "[0, 1, 0] \<noteq> ([] :: real list) \<and> [2, 1, 2] \<noteq> ([] :: real list) \<and>
   update_stats_table [] [([0, 1, 2], [0, 1, 0], ''A''), ([0, 1, 2], [2, 1, 2], ''B'')] =
     ([[''A'', ''0.33'', ''0.00'', ''0.47''], [''B'', ''1.67'', ''2.00'', ''0.47'']], None) \<and>
   stats_table (fst (update_plot ols_polyfit scenario_window)) =
     [[''A'', ''0.33'', ''0.00'', ''0.47''], [''B'', ''1.67'', ''2.00'', ''0.47'']]"
proof -
  have h: "\<forall>d\<in>set ([([0, 1, 2], [0, 1, 0], ''A''), ([0, 1, 2], [2, 1, 2], ''B'')] :: dataset list).
             fst (snd d) \<noteq> []"
    by simp
  have a: "format_2f (sqrt (sum_list (map (\<lambda>v. (v - sum_list [0, 1, 0] / real (length [0, 1, 0::real]))\<^sup>2) [0, 1, 0]) /
                                    real (length [0, 1, 0::real]))) = ''0.47''"
    using format_std by (simp add: power2_eq_square)
  have b: "format_2f (sqrt (sum_list (map (\<lambda>v. (v - sum_list [2, 1, 2] / real (length [2, 1, 2::real]))\<^sup>2) [2, 1, 2]) /
                                    real (length [2, 1, 2::real]))) = ''0.47''"
    using format_std by (simp add: power2_eq_square)
  have c: "format_2f (sum_list [0, 1, 0] / real (length [0, 1, 0::real])) = ''0.33''"
    "format_2f (middle [0, 1, 0]) = ''0.00''"
    "format_2f (sum_list [2, 1, 2] / real (length [2, 1, 2::real])) = ''1.67''"
    "format_2f (middle [2, 1, 2]) = ''2.00''"
    by (simp_all add: middle_def format_2f_def round_half_even_def Let_def
        str_nat.simps digit_char_def)
  have "update_stats_table [] [([0, 1, 2], [0, 1, 0], ''A''), ([0, 1, 2], [2, 1, 2], ''B'')] =
     ([[''A'', ''0.33'', ''0.00'', ''0.47''], [''B'', ''1.67'', ''2.00'', ''0.47'']], None)"
    using statistics_rows [OF h, of "[]" ols_polyfit] a b c
    by (simp add: power2_eq_square)
  then show ?thesis
    using statistics_rows [OF h, of "[]" ols_polyfit] by simp
qed

subsection \<open>The spectrum\<close>

lemma fftfreq_take:
  "take (n div 2) (fftfreq n d) =
     map (\<lambda>k. if real n * d = 0 then (if k = 0 then NaN else PosInf)
              else Finite (real k / (real n * d))) [0..<n div 2]"
proof -
  define m where "m = (n - 1) div 2 + 1"
  have le: "n div 2 \<le> m" unfolding m_def by arith
  have "fftfreq n d =
          map (\<lambda>k. if real n * d = 0
              then (if k = 0 then NaN else if 0 < k then PosInf else NegInf)
              else Finite (of_int k / (real n * d)))
            (map int [0..<m] @ map (\<lambda>j. int j - int (n div 2)) [0..<n div 2])"
    unfolding fftfreq_def m_def by (rule refl)
  then have "take (n div 2) (fftfreq n d) =
          map (\<lambda>k. if real n * d = 0
              then (if k = 0 then NaN else if 0 < k then PosInf else NegInf)
              else Finite (of_int k / (real n * d))) (map int (take (n div 2) [0..<m]))"
    using le by (simp add: take_map)
  also have "take (n div 2) [0..<m] = [0..<n div 2]"
    using le by (simp add: take_upt)
  finally show ?thesis by (simp add: comp_def)
qed

lemma dft_bin_sum:
  "dft_bin y k =
     (\<Sum>n<length y. of_real (y ! n) * cis (- (2 * pi * real k * real n / real (length y))))"
  by (simp add: dft_bin_def interv_sum_list_conv_sum_set_nat atLeast0LessThan)

lemma plot_one_fft:
  assumes "y \<noteq> []"
  shows "plot_one pf ''fft'' ax x y lbl =
           (ax\<lparr>lines := lines ax @
               [let N = length y; T = (if 1 < length x then x ! 1 - x ! 0 else 1)
                in \<lparr>xdata = map (\<lambda>k. if T = 0 then (if k = 0 then NaN else PosInf)
                                     else Finite (real k / (real N * T))) [0..<N div 2],
                     ydata = map (\<lambda>k. 2 / real N *
                               cmod (\<Sum>n<N. of_real (y ! n) *
                                       cis (- (2 * pi * real k * real n / real N))))
                             [0..<N div 2],
                     fmt = [], label = lbl\<rparr>]\<rparr>, None)"
proof -
  have mags: "take (length y div 2) (map (dft_bin y) [0..<length y]) =
              map (\<lambda>k. \<Sum>n<length y. of_real (y ! n) *
                             cis (- (2 * pi * real k * real n / real (length y))))
                [0..<length y div 2]"
    by (simp add: take_map take_upt dft_bin_sum del: upt_Suc)
  show ?thesis
    using assms
    by (simp add: plot_one_def scipy_fft_def Let_def axes_plot_def fftfreq_take mags comp_def
        del: upt_Suc)
qed

lemma plot_loop_fft:
  assumes "\<forall>d\<in>set ds. fst (snd d) \<noteq> []"
  shows "plot_loop pf ''fft'' ax ds =
           (ax\<lparr>lines := lines ax @
              map (\<lambda>(x, y, name).
                    let N = length y; T = (if 1 < length x then x ! 1 - x ! 0 else 1)
                    in \<lparr>xdata = map (\<lambda>k. if T = 0 then (if k = 0 then NaN else PosInf)
                                         else Finite (real k / (real N * T))) [0..<N div 2],
                         ydata = map (\<lambda>k. 2 / real N *
                                   cmod (\<Sum>n<N. of_real (y ! n) *
                                           cis (- (2 * pi * real k * real n / real N))))
                                 [0..<N div 2],
                         fmt = [], label = name\<rparr>) ds\<rparr>, None)"
  using assms
proof (induction ds arbitrary: ax)
  case Nil
  then show ?case by simp
next
  case (Cons d ds)
  obtain x y n where d: "d = (x, y, n)" by (cases d) auto
  have y: "y \<noteq> []" using Cons.prems d by simp
  have rest: "\<forall>d\<in>set ds. fst (snd d) \<noteq> []" using Cons.prems by simp
  show ?case
    by (simp add: d plot_one_fft [OF y] Cons.IH [OF rest])
qed

text \<open>
  C5.  With the plot type \<open>fft\<close>, \<open>update_plot\<close> raises nothing and draws one line per
  collected dataset (every collected dataset has at least one sample).  For a dataset of N
  samples the abscissae are the frequencies \<open>k / (N * T)\<close> for \<open>k < N div 2\<close>, where T
  is \<open>x[1] - x[0]\<close> when there are at least two samples and 1 otherwise, and the ordinates
  are \<open>2 / N\<close> times the modulus of bin \<open>k\<close> of the discrete Fourier transform of
  \<open>y\<close>, for the same \<open>k\<close>.  A dataset of one sample gives the empty line.  When the
  first two abscissae are equal, T is 0 and the frequencies are \<open>nan\<close> for bin 0 and
  \<open>inf\<close> for the others, as NumPy computes them; this too raises nothing.
\<close>

theorem spectrum_render:
  assumes "plot_type_selector w = ''fft''"
    and "gather (datasets w) (dataset_selector w) = Inr ds"
  shows "snd (update_plot polyfit w) = None \<and>
         lines (axes (canvas (fst (update_plot polyfit w)))) =
           map (\<lambda>(x, y, name).
                 let N = length y; T = (if 1 < length x then x ! 1 - x ! 0 else 1)
                 in \<lparr>xdata = map (\<lambda>k. if T = 0 then (if k = 0 then NaN else PosInf)
                                      else Finite (real k / (real N * T))) [0..<N div 2],
                      ydata = map (\<lambda>k. 2 / real N *
                                cmod (\<Sum>n<N. of_real (y ! n) *
                                        cis (- (2 * pi * real k * real n / real N))))
                              [0..<N div 2],
                      fmt = [], label = name\<rparr>) ds \<and>
         patches (axes (canvas (fst (update_plot polyfit w)))) = [] \<and>
         xlabel (axes (canvas (fst (update_plot polyfit w)))) = ''Frequency'' \<and>
         ylabel (axes (canvas (fst (update_plot polyfit w)))) = ''Amplitude'' \<and>
         draws (canvas (fst (update_plot polyfit w))) = draws (canvas w) + 1 \<and>
         [] \<notin> set (map (\<lambda>d. fst (snd d)) ds)"
proof -
  have wf: "\<forall>d\<in>set ds. fst (snd d) \<noteq> []"
    using gather_wf [OF assms(2)] by blast
  let ?ax = "fst (plot_loop polyfit ''fft'' cleared ds)"
  have loop: "plot_loop polyfit ''fft'' cleared ds = (?ax, None)"
    using plot_loop_fft [OF wf, of polyfit cleared] by simp
  have ls: "lines ?ax =
           map (\<lambda>(x, y, name).
                 let N = length y; T = (if 1 < length x then x ! 1 - x ! 0 else 1)
                 in \<lparr>xdata = map (\<lambda>k. if T = 0 then (if k = 0 then NaN else PosInf)
                                      else Finite (real k / (real N * T))) [0..<N div 2],
                      ydata = map (\<lambda>k. 2 / real N *
                                cmod (\<Sum>n<N. of_real (y ! n) *
                                        cis (- (2 * pi * real k * real n / real N))))
                              [0..<N div 2],
                      fmt = [], label = name\<rparr>) ds"
    "patches ?ax = []"
    using plot_loop_fft [OF wf, of polyfit cleared] by (simp_all add: cleared_def)
  note p = plot_after_loop [OF loop, of "canvas w" "''Frequency''" "''Amplitude''"]
  obtain c where c: "plot polyfit (canvas w) ds ''fft'' ''Frequency'' ''Amplitude'' = (c, None)"
    using p by (cases "plot polyfit (canvas w) ds ''fft'' ''Frequency'' ''Amplitude''") auto
  obtain tbl where t: "update_stats_table (stats_table w) ds = (tbl, None)"
    using update_stats_table_ok [OF wf, of "stats_table w"] by simp
  have up: "update_plot polyfit w = (w\<lparr>canvas := c, stats_table := tbl\<rparr>, None)"
    by (simp add: update_plot_def assms c t Let_def)
  have "[] \<notin> set (map (\<lambda>d. fst (snd d)) ds)"
    using wf by auto
  then show ?thesis
    using p ls c by (simp add: up)
qed

lemma unpack_S: "unpack2 (zip_star dataset_S) = Inr ([5], [3])"
  by (simp add: dataset_S_def zip_star_def unpack2_def upt_rec)

lemma unpack_T: "unpack2 (zip_star dataset_T) = Inr ([0, 1 / 2], [1, 3])"
  by (simp add: dataset_T_def zip_star_def unpack2_def upt_rec)

lemma unpack_Z: "unpack2 (zip_star dataset_Z) = Inr ([1, 1, 2, 3], [1, 3, 5, 7])"
  by (simp add: dataset_Z_def zip_star_def unpack2_def upt_rec)

theorem spectrum_render_witness:
  "plot_type_selector spectrum_window = ''fft'' \<and>
   gather (datasets spectrum_window) (dataset_selector spectrum_window) =
     Inr [([5], [3], ''S''), ([0, 1 / 2], [1, 3], ''T''), ([1, 1, 2, 3], [1, 3, 5, 7], ''Z'')] \<and>
   snd (update_plot ols_polyfit spectrum_window) = None \<and>
   map label (lines (axes (canvas (fst (update_plot ols_polyfit spectrum_window))))) =
     [''S'', ''T'', ''Z''] \<and>
   map xdata (lines (axes (canvas (fst (update_plot ols_polyfit spectrum_window))))) =
     [[], [Finite 0], [NaN, PosInf]] \<and>
   map ydata (take 2 (lines (axes (canvas (fst (update_plot ols_polyfit spectrum_window)))))) =
     [[], [4]]"
proof -
  have m: "plot_type_selector spectrum_window = ''fft''"
    by (simp add: spectrum_window_def init_window_def)
  have g: "gather (datasets spectrum_window) (dataset_selector spectrum_window) =
     Inr [([5], [3], ''S''), ([0, 1 / 2], [1, 3], ''T''), ([1, 1, 2, 3], [1, 3, 5, 7], ''Z'')]"
    by (simp add: spectrum_window_def init_window_def unpack_S unpack_T unpack_Z)
  have e4: "Suc (Suc (Suc (Suc 0))) = 4" and e2: "Suc (Suc 0) = 2"
    by simp_all
  have u: "[0..<Suc (Suc (Suc (Suc 0))) div Suc (Suc 0)] = [0, Suc 0]"
    unfolding e4 e2 by (simp add: upt_rec)
  show ?thesis
    using m g spectrum_render [OF m g, of ols_polyfit]
    by (simp add: Let_def u lessThan_Suc numeral_2_eq_2)
qed

subsection \<open>Two list entries with one name\<close>

text \<open>
  Every key of the registry has an entry in the list: so it is in the window as it
  starts, and loading, ticking and choosing a plot type keep it so.
\<close>

lemma load_loop_entries_cover_registry:
  assumes "dom (datasets w) \<subseteq> fst ` set (dataset_selector w)"
  shows "dom (datasets (fst (load_loop np w fs))) \<subseteq>
           fst ` set (dataset_selector (fst (load_loop np w fs)))"
  using assms
proof (induction fs arbitrary: w)
  case Nil
  then show ?case by simp
next
  case (Cons f fs)
  show ?case
  proof (cases "np f")
    case (Inl e)
    then show ?thesis using Cons.prems by (auto simp: Let_def)
  next
    case (Inr d)
    let ?w1 = "w\<lparr>dataset_selector := dataset_selector w @ [(basename f, False)],
                  datasets := (datasets w)(basename f \<mapsto> d)\<rparr>"
    have pre: "dom (datasets ?w1) \<subseteq> fst ` set (dataset_selector ?w1)"
      using Cons.prems by auto
    show ?thesis
      using Cons.IH [OF pre] by (simp add: Inr Let_def)
  qed
qed

lemma entries_cover_registry:
  "dom (datasets init_window) \<subseteq> fst ` set (dataset_selector init_window)"
  "dom (datasets w) \<subseteq> fst ` set (dataset_selector w) \<Longrightarrow>
     dom (datasets (fst (load_files np pf w fs))) \<subseteq>
       fst ` set (dataset_selector (fst (load_files np pf w fs)))"
  "dom (datasets w) \<subseteq> fst ` set (dataset_selector w) \<Longrightarrow>
     dom (datasets (fst (set_check_state pf i b w))) \<subseteq>
       fst ` set (dataset_selector (fst (set_check_state pf i b w)))"
  "dom (datasets w) \<subseteq> fst ` set (dataset_selector w) \<Longrightarrow>
     dom (datasets (fst (set_plot_type pf t w))) \<subseteq>
       fst ` set (dataset_selector (fst (set_plot_type pf t w)))"
proof -
  show "dom (datasets init_window) \<subseteq> fst ` set (dataset_selector init_window)"
    by (simp add: init_window_def)
  show "dom (datasets (fst (load_files np pf w fs))) \<subseteq>
       fst ` set (dataset_selector (fst (load_files np pf w fs)))"
    if "dom (datasets w) \<subseteq> fst ` set (dataset_selector w)"
    using load_loop_entries_cover_registry [OF that, of np fs] update_plot_registry
    by (cases "load_loop np w fs") (auto simp: load_files_def split: option.splits)
  show "dom (datasets (fst (set_check_state pf i b w))) \<subseteq>
       fst ` set (dataset_selector (fst (set_check_state pf i b w)))"
    if "dom (datasets w) \<subseteq> fst ` set (dataset_selector w)"
  proof -
    have "map fst ((dataset_selector w)[i := (fst (dataset_selector w ! i), b)]) =
            map fst (dataset_selector w)"
    proof (cases "i < length (dataset_selector w)")
      case True
      then have "map fst ((dataset_selector w)[i := (fst (dataset_selector w ! i), b)]) =
                   (map fst (dataset_selector w))[i := map fst (dataset_selector w) ! i]"
        by (simp add: map_update)
      then show ?thesis by (simp only: list_update_id)
    next
      case False
      then have "length (dataset_selector w) \<le> i" by simp
      then show ?thesis by (simp only: list_update_beyond)
    qed
    then have "fst ` set ((dataset_selector w)[i := (fst (dataset_selector w ! i), b)]) =
            fst ` set (dataset_selector w)"
      by (metis set_map)
    then show ?thesis
      using that update_plot_registry by (simp add: set_check_state_def)
  qed
  show "dom (datasets (fst (set_plot_type pf t w))) \<subseteq>
       fst ` set (dataset_selector (fst (set_plot_type pf t w)))"
    if "dom (datasets w) \<subseteq> fst ` set (dataset_selector w)"
    using that update_plot_registry by (simp add: set_plot_type_def)
qed

text \<open>
  C10.  Loading a file whose base name is already a key of the registry adds a second
  entry with that name to the list, unticked, and the registry then holds the new array
  under the name.  With every entry of that name ticked (and no other), \<open>update_plot\<close>
  collects that one array once per entry, at least twice, and hands this list to \<open>plot\<close>
  whatever plot type is chosen; with the plot type \<open>line\<close> the chart has the same line
  and the table the same row once per entry, so the table has more rows than there are
  names ticked.
\<close>

theorem duplicate_name_entries:
  assumes "np_load f = Inr d"
    and "datasets w (basename f) \<noteq> None"
    and "dom (datasets w) \<subseteq> fst ` set (dataset_selector w)"
    and "unpack2 (zip_star d) = Inr (x, y)"
    and "pt \<noteq> ''Select Plot''"
  shows "let n = basename f;
             w1 = fst (load_files np_load polyfit w [f]);
             k = Suc (length (filter (\<lambda>(m, c). m = n) (dataset_selector w)));
             w2 = w1\<lparr>dataset_selector := map (\<lambda>(m, c). (m, m = n)) (dataset_selector w1),
                     plot_type_selector := pt\<rparr>
         in dataset_selector w1 = dataset_selector w @ [(n, False)] \<and>
            datasets w1 n = Some d \<and>
            2 \<le> k \<and>
            gather (datasets w2) (dataset_selector w2) = Inr (replicate k (x, y, n)) \<and>
            canvas (fst (update_plot polyfit w2)) =
              fst (plot polyfit (canvas w1) (replicate k (x, y, n)) pt
                     (if pt \<noteq> ''fft'' then ''Time'' else ''Frequency'')
                     (if pt \<noteq> ''hist'' then ''Amplitude'' else ''Frequency'')) \<and>
            (pt = ''line'' \<longrightarrow>
               snd (update_plot polyfit w2) = None \<and>
               lines (axes (canvas (fst (update_plot polyfit w2)))) =
                 replicate k \<lparr>xdata = map Finite x, ydata = y, fmt = [], label = n\<rparr> \<and>
               stats_table (fst (update_plot polyfit w2)) =
                 replicate k
                   [n, format_2f (sum_list y / real (length y)), format_2f (middle y),
                    format_2f (sqrt (sum_list (map (\<lambda>v. (v - sum_list y / real (length y))\<^sup>2) y) /
                                     real (length y)))])"
proof -
  define n where "n = basename f"
  define w1 where "w1 = fst (load_files np_load polyfit w [f])"
  define k where "k = Suc (length (filter (\<lambda>(m, c). m = n) (dataset_selector w)))"
  define w2 where "w2 = w1\<lparr>dataset_selector := map (\<lambda>(m, c). (m, m = n)) (dataset_selector w1),
                     plot_type_selector := pt\<rparr>"
  have lf: "load_files np_load polyfit w [f] =
          update_plot polyfit
            (w\<lparr>dataset_selector := dataset_selector w @ [(n, False)],
               datasets := (datasets w)(n \<mapsto> d)\<rparr>)"
    by (simp add: load_files_def assms(1) Let_def n_def)
  have sel: "dataset_selector w1 = dataset_selector w @ [(n, False)]"
    using update_plot_registry by (simp add: w1_def lf)
  have reg: "datasets w1 = (datasets w)(n \<mapsto> d)"
    using update_plot_registry by (simp add: w1_def lf)
  have regn: "datasets w1 n = Some d"
    by (simp add: reg)
  have "n \<in> fst ` set (dataset_selector w)"
    using assms(2,3) by (auto simp: n_def)
  then have "filter (\<lambda>(m, c). m = n) (dataset_selector w) \<noteq> []"
    by (auto simp: filter_empty_conv)
  then have two: "2 \<le> k"
    unfolding k_def by (cases "filter (\<lambda>(m, c). m = n) (dataset_selector w)") auto
  have g: "gather (datasets w2) (dataset_selector w2) = Inr (replicate k (x, y, n))"
    using gather_same_name [where reg = "datasets w1" and n = n and d = d
        and x = x and y = y and entries = "dataset_selector w1"] regn assms(4)
    by (simp add: w2_def sel k_def)
  have m: "plot_type_selector w2 = pt" "canvas w2 = canvas w1" "stats_table w2 = stats_table w1"
    by (simp_all add: w2_def)
  have cv: "canvas (fst (update_plot polyfit w2)) =
              fst (plot polyfit (canvas w1) (replicate k (x, y, n)) pt
                     (if pt \<noteq> ''fft'' then ''Time'' else ''Frequency'')
                     (if pt \<noteq> ''hist'' then ''Amplitude'' else ''Frequency''))"
    using assms(5)
    by (simp add: update_plot_def g m Let_def split: prod.splits option.splits)
  have ln: "snd (update_plot polyfit w2) = None \<and>
               lines (axes (canvas (fst (update_plot polyfit w2)))) =
                 replicate k \<lparr>xdata = map Finite x, ydata = y, fmt = [], label = n\<rparr> \<and>
               stats_table (fst (update_plot polyfit w2)) =
                 replicate k
                   [n, format_2f (sum_list y / real (length y)), format_2f (middle y),
                    format_2f (sqrt (sum_list (map (\<lambda>v. (v - sum_list y / real (length y))\<^sup>2) y) /
                                     real (length y)))]"
    if line: "pt = ''line''"
  proof -
    have wf: "length x = length y" "y \<noteq> []"
      using unpack2_zip_star [OF assms(4)] by auto
    have wfl: "\<forall>e\<in>set (replicate k (x, y, n)). length (fst e) = length (fst (snd e))"
      using wf by simp
    have ne: "\<forall>e\<in>set (replicate k (x, y, n)). fst (snd e) \<noteq> []"
      using wf by simp
    let ?ax = "fst (plot_loop polyfit ''line'' cleared (replicate k (x, y, n)))"
    have loop: "plot_loop polyfit ''line'' cleared (replicate k (x, y, n)) = (?ax, None)"
      using plot_loop_line [OF wfl, of polyfit cleared] by simp
    have ls: "lines ?ax = replicate k \<lparr>xdata = map Finite x, ydata = y, fmt = [], label = n\<rparr>"
      using plot_loop_line [OF wfl, of polyfit cleared] by (simp add: cleared_def map_replicate)
    note p = plot_after_loop [OF loop, of "canvas w1" "''Time''" "''Amplitude''"]
    obtain c where c: "plot polyfit (canvas w1) (replicate k (x, y, n)) ''line''
                         ''Time'' ''Amplitude'' = (c, None)"
      using p by (cases "plot polyfit (canvas w1) (replicate k (x, y, n)) ''line''
                         ''Time'' ''Amplitude''") auto
    have t: "update_stats_table (stats_table w1) (replicate k (x, y, n)) =
               (replicate k
                   [n, format_2f (sum_list y / real (length y)), format_2f (middle y),
                    format_2f (sqrt (sum_list (map (\<lambda>v. (v - sum_list y / real (length y))\<^sup>2) y) /
                                     real (length y)))], None)"
      using update_stats_table_ok [OF ne, of "stats_table w1"] wf(2)
      by (simp add: map_replicate format_np_def np_mean_def np_std_def Let_def)
    have up: "update_plot polyfit w2 =
                (w2\<lparr>canvas := c, stats_table := replicate k
                   [n, format_2f (sum_list y / real (length y)), format_2f (middle y),
                    format_2f (sqrt (sum_list (map (\<lambda>v. (v - sum_list y / real (length y))\<^sup>2) y) /
                                     real (length y)))]\<rparr>, None)"
      by (simp add: update_plot_def g m line c t Let_def)
    show ?thesis
      using p ls c by (simp add: up)
  qed
  show ?thesis
    unfolding Let_def n_def [symmetric] w1_def [symmetric] k_def [symmetric] w2_def [symmetric]
    using sel regn two g cv ln by blast
qed

lemma unpack_A2: "unpack2 (zip_star dataset_A2) = Inr ([0, 1], [5, 7])"
  by (simp add: dataset_A2_def zip_star_def unpack2_def upt_rec)

theorem duplicate_name_entries_witness:
  "example_np_load ''/other/A'' = Inr dataset_A2 \<and>
   datasets unticked_window (basename ''/other/A'') = Some dataset_A \<and>
   dom (datasets unticked_window) \<subseteq> fst ` set (dataset_selector unticked_window) \<and>
   unpack2 (zip_star dataset_A2) = Inr ([0, 1], [5, 7]) \<and>
   ''line'' \<noteq> ''Select Plot'' \<and>
   dataset_selector (fst (load_files example_np_load ols_polyfit unticked_window [''/other/A''])) =
     [(''A'', False), (''A'', False)] \<and>
   datasets (fst (load_files example_np_load ols_polyfit unticked_window [''/other/A''])) ''A'' =
     Some dataset_A2 \<and>
   snd (update_plot ols_polyfit
          ((fst (load_files example_np_load ols_polyfit unticked_window [''/other/A'']))
             \<lparr>dataset_selector := [(''A'', True), (''A'', True)],
              plot_type_selector := ''line''\<rparr>)) = None \<and>
   lines (axes (canvas (fst (update_plot ols_polyfit
          ((fst (load_files example_np_load ols_polyfit unticked_window [''/other/A'']))
             \<lparr>dataset_selector := [(''A'', True), (''A'', True)],
              plot_type_selector := ''line''\<rparr>))))) =
     [\<lparr>xdata = [Finite 0, Finite 1], ydata = [5, 7], fmt = [], label = ''A''\<rparr>,
      \<lparr>xdata = [Finite 0, Finite 1], ydata = [5, 7], fmt = [], label = ''A''\<rparr>] \<and>
   stats_table (fst (update_plot ols_polyfit
          ((fst (load_files example_np_load ols_polyfit unticked_window [''/other/A'']))
             \<lparr>dataset_selector := [(''A'', True), (''A'', True)],
              plot_type_selector := ''line''\<rparr>))) =
     [[''A'', ''6.00'', ''6.00'', ''1.00''], [''A'', ''6.00'', ''6.00'', ''1.00'']]"
proof -
  have h1: "example_np_load ''/other/A'' = Inr dataset_A2"
    by (simp add: example_np_load_def)
  have bn: "basename ''/other/A'' = ''A''"
    by (simp add: basename_def)
  have sel: "dataset_selector unticked_window = [(''A'', False)]"
    by (simp add: unticked_window_def init_window_def)
  have reg: "datasets unticked_window = [''A'' \<mapsto> dataset_A]"
    by (simp add: unticked_window_def init_window_def)
  have h2: "datasets unticked_window (basename ''/other/A'') \<noteq> None"
    by (simp add: bn reg)
  have h3: "dom (datasets unticked_window) \<subseteq> fst ` set (dataset_selector unticked_window)"
    by (simp add: reg sel)
  have h5: "''line'' \<noteq> ''Select Plot''"
    by simp
  have f: "format_2f (sum_list [5, 7] / real (length [5, 7 :: real])) = ''6.00''"
    "format_2f (middle [5, 7]) = ''6.00''"
    "format_2f (sqrt (sum_list (map (\<lambda>v. (v - sum_list [5, 7] / real (length [5, 7 :: real]))\<^sup>2)
                                  [5, 7]) / real (length [5, 7 :: real]))) = ''1.00''"
    by (simp_all add: middle_def format_2f_def round_half_even_def Let_def
        str_nat.simps digit_char_def)
  note inst = duplicate_name_entries [where np_load = example_np_load and f = "''/other/A''"
        and d = dataset_A2 and w = unticked_window and x = "[0, 1]" and y = "[5, 7]"
        and pt = "''line''" and polyfit = ols_polyfit]
  have s1: "dataset_selector (fst (load_files example_np_load ols_polyfit unticked_window
                                    [''/other/A''])) = [(''A'', False), (''A'', False)]"
    using inst h1 h2 h3 h5 unpack_A2 by (simp add: Let_def bn sel)
  show ?thesis
    using h1 h2 h3 h5 unpack_A2 f inst
    by (simp add: Let_def bn sel reg s1 plot_def plot_one_def axes_plot_def axes_legend_def
        cleared_def)
qed

subsection \<open>The report\<close>

lemma report_one_ok:
  assumes "length x = length y" and "y \<noteq> []"
    and "pt = ''regression'' \<longrightarrow> (\<exists>m b. pf x y = Inr (m, b))"
  shows "snd (report_one pf pt ax x y n) = None"
  using assms
  by (auto simp: report_one_def axes_plot_def scipy_fft_def Let_def fftfreq_def
      split: sum.splits prod.splits option.splits)

lemma report_loop_ok:
  assumes "\<forall>d\<in>set ds. length (fst d) = length (fst (snd d)) \<and> fst (snd d) \<noteq> []"
    and "pt = ''regression'' \<longrightarrow> (\<forall>d\<in>set ds. \<exists>m b. pf (fst d) (fst (snd d)) = Inr (m, b))"
  shows "snd (report_loop pf pt ax ds) = None"
  using assms
proof (induction ds arbitrary: ax)
  case Nil
  then show ?case by simp
next
  case (Cons d ds)
  obtain x y n where d: "d = (x, y, n)" by (cases d) auto
  have one: "snd (report_one pf pt ax x y n) = None"
    using Cons.prems d by (intro report_one_ok) auto
  then obtain ax1 where ax1: "report_one pf pt ax x y n = (ax1, None)"
    by (cases "report_one pf pt ax x y n") auto
  show ?case
    using Cons.IH [of ax1] Cons.prems by (simp add: d ax1)
qed

lemma chart_page_ok:
  assumes "\<forall>d\<in>set ds. length (fst d) = length (fst (snd d)) \<and> fst (snd d) \<noteq> []"
    and "pt = ''regression'' \<longrightarrow> (\<forall>d\<in>set ds. \<exists>m b. pf (fst d) (fst (snd d)) = Inr (m, b))"
  shows "\<exists>pg. chart_page pf pt ds = Inr pg"
proof -
  obtain ax where "report_loop pf pt cleared ds = (ax, None)"
    using report_loop_ok [OF assms, of cleared] by (cases "report_loop pf pt cleared ds") auto
  then show ?thesis by (simp add: chart_page_def)
qed

lemma report_body_plot_type:
  "report_body pf env (w\<lparr>plot_type_selector := t\<rparr>) path fs = report_body pf env w path fs"
  by (simp add: report_body_def)

lemma save_pdf_plot_type:
  "save_pdf pf env (w\<lparr>plot_type_selector := t\<rparr>) fs = save_pdf pf env w fs"
  by (simp add: save_pdf_def report_body_plot_type Let_def split: sum.splits option.splits)

lemma save_pdf_finally:
  assumes "mkdtemp env = Inr temp_dir" and "pdf_open env = None"
  shows "temp_dir \<notin> dirs (fst (save_pdf pf env w fs)) \<and>
         (\<forall>p. is_under temp_dir p \<longrightarrow> files (fst (save_pdf pf env w fs)) p = None)"
  using assms by (simp add: save_pdf_def rmtree_def Let_def split: prod.splits)

lemma save_pdf_open_fails:
  assumes "mkdtemp env = Inr temp_dir" and "pdf_open env = Some e"
  shows "save_pdf pf env w fs = (fs\<lparr>dirs := insert temp_dir (dirs fs)\<rparr>, Some e)"
  using assms by (simp add: save_pdf_def Let_def)

text \<open>
  C3 fails on the code.  \<open>PdfPages(pdf_file_path)\<close> is constructed after \<open>mkdtemp\<close>
  and before the \<open>try\<close>: when it raises, the \<open>finally\<close> clause is never entered and
  the directory just made stays behind.  After the construction every exit path goes
  through \<open>rmtree\<close> (lemma \<open>save_pdf_finally\<close>).
\<close>

theorem temp_dir_left_when_pdf_open_fails:
  "save_pdf ols_polyfit open_fails_env scenario_window empty_fs =
     (\<lparr>dirs = {''/tmp/tmpq1''}, files = Map.empty\<rparr>, Some OSError)"
  by (simp add: save_pdf_def open_fails_env_def good_env_def empty_fs_def Let_def)

lemma save_pdf_success:
  assumes "mkdtemp env = Inr temp_dir" and "pdf_open env = None"
    and "\<forall>i. savefig env i = None" and "pdf_close env = None" and "move env = None"
    and "save_path env \<noteq> []" and "\<not> is_under temp_dir (save_path env)"
    and "gather (datasets w) (dataset_selector w) = Inr ds"
    and "chart_page pf ''line'' ds = Inr p1" and "chart_page pf ''hist'' ds = Inr p2"
    and "chart_page pf ''fft'' ds = Inr p3" and "chart_page pf ''regression'' ds = Inr p4"
  shows "snd (save_pdf pf env w fs) = None \<and>
         files (fst (save_pdf pf env w fs)) (save_path env) =
           Some [stats_page ds, p1, p2, p3, p4]"
  using assms
  by (simp add: save_pdf_def report_body_def plot_types_def append_page_def shutil_move_def
      rmtree_def Let_def)


lemma report_loop_lines:
  assumes "snd (report_loop pf pt ax ds) = None" and "pt = ''line'' \<or> pt = ''fft''"
  shows "map label (lines (fst (report_loop pf pt ax ds))) =
           map label (lines ax) @ map (\<lambda>d. snd (snd d)) ds \<and>
         patches (fst (report_loop pf pt ax ds)) = patches ax"
  using assms
proof (induction ds arbitrary: ax)
  case Nil
  then show ?case by simp
next
  case (Cons d ds)
  obtain x y n where d: "d = (x, y, n)" by (cases d) auto
  obtain ax1 where ax1: "report_one pf pt ax x y n = (ax1, None)"
    using Cons.prems(1) by (cases "report_one pf pt ax x y n") (auto simp: d split: option.splits)
  have one: "map label (lines ax1) = map label (lines ax) @ [n] \<and> patches ax1 = patches ax"
    using ax1 Cons.prems(2)
    by (auto simp: report_one_def axes_plot_def Let_def split: if_splits sum.splits)
  have "snd (report_loop pf pt ax1 ds) = None"
    using Cons.prems(1) by (simp add: d ax1)
  then show ?case
    using Cons.IH [of ax1] Cons.prems(2) one by (simp add: d ax1)
qed

lemma report_loop_regression:
  assumes "snd (report_loop pf ''regression'' ax ds) = None"
  shows "map label (lines (fst (report_loop pf ''regression'' ax ds))) =
           map label (lines ax) @
           concat (map (\<lambda>d. [snd (snd d) @ '' Data Points'', snd (snd d) @ '' Fit'']) ds) \<and>
         patches (fst (report_loop pf ''regression'' ax ds)) = patches ax"
  using assms
proof (induction ds arbitrary: ax)
  case Nil
  then show ?case by simp
next
  case (Cons d ds)
  obtain x y n where d: "d = (x, y, n)" by (cases d) auto
  obtain ax1 where ax1: "report_one pf ''regression'' ax x y n = (ax1, None)"
    using Cons.prems(1)
    by (cases "report_one pf ''regression'' ax x y n") (auto simp: d split: option.splits)
  have one: "map label (lines ax1) = map label (lines ax) @ [n @ '' Data Points'', n @ '' Fit''] \<and>
             patches ax1 = patches ax"
    using ax1
    by (auto simp: report_one_def axes_plot_def Let_def split: if_splits sum.splits)
  have "snd (report_loop pf ''regression'' ax1 ds) = None"
    using Cons.prems(1) by (simp add: d ax1)
  then show ?case
    using Cons.IH [of ax1] one by (simp add: d ax1)
qed

lemma chart_page_labels:
  assumes "chart_page pf pt ds = Inr pg"
  shows "(pt = ''line'' \<or> pt = ''fft'' \<or> pt = ''hist'' \<longrightarrow>
            page_labels pg = map (\<lambda>d. snd (snd d)) ds) \<and>
         (pt = ''regression'' \<longrightarrow>
            page_labels pg =
              concat (map (\<lambda>d. [snd (snd d) @ '' Data Points'', snd (snd d) @ '' Fit'']) ds))"
proof -
  obtain ax where ax: "report_loop pf pt cleared ds = (ax, None)"
    using assms by (cases "report_loop pf pt cleared ds") (auto simp: chart_page_def split: option.splits)
  have pg: "page_labels pg = map label (lines ax) @ map hist_label (patches ax)"
    using assms by (auto simp: chart_page_def ax page_labels_def axes_legend_def)
  have l: "pt = ''line'' \<or> pt = ''fft'' \<Longrightarrow> page_labels pg = map (\<lambda>d. snd (snd d)) ds"
    using report_loop_lines [of pf pt cleared ds] ax by (simp add: pg cleared_def)
  have h: "pt = ''hist'' \<Longrightarrow> page_labels pg = map (\<lambda>d. snd (snd d)) ds"
    using ax by (auto simp: pg report_loop_hist cleared_def split_def comp_def)
  have r: "pt = ''regression'' \<Longrightarrow> page_labels pg =
              concat (map (\<lambda>d. [snd (snd d) @ '' Data Points'', snd (snd d) @ '' Fit'']) ds)"
    using report_loop_regression [of pf cleared ds] ax by (simp add: pg cleared_def)
  show ?thesis using l h r by blast
qed

text \<open>
  C1, amended.  The report is built from the entries of the list that are ticked and whose
  text is a key of the registry, in list order, and from nothing else: when nothing raises,
  the saved document is the statistics page of these datasets followed by the four chart
  pages \<open>line\<close>, \<open>hist\<close>, \<open>fft\<close>, \<open>regression\<close>, each showing every one of them.
  The chosen plot type has no influence on \<open>save_pdf\<close>.
\<close>

theorem report_covers_ticked_entries:
  assumes "mkdtemp env = Inr temp_dir" and "pdf_open env = None"
    and "\<forall>i. savefig env i = None" and "pdf_close env = None" and "move env = None"
    and "save_path env \<noteq> []" and "\<not> is_under temp_dir (save_path env)"
    and "gather (datasets w) (dataset_selector w) = Inr ds"
    and "\<forall>d\<in>set ds. \<exists>m b. polyfit (fst d) (fst (snd d)) = Inr (m, b)"
  shows "snd (save_pdf polyfit env w fs) = None \<and>
         (\<exists>p1 p2 p3 p4.
            files (fst (save_pdf polyfit env w fs)) (save_path env) =
              Some [stats_page ds, p1, p2, p3, p4] \<and>
            chart_page polyfit ''line'' ds = Inr p1 \<and>
            chart_page polyfit ''hist'' ds = Inr p2 \<and>
            chart_page polyfit ''fft'' ds = Inr p3 \<and>
            chart_page polyfit ''regression'' ds = Inr p4 \<and>
            page_labels p1 = map (\<lambda>d. snd (snd d)) ds \<and>
            page_labels p2 = map (\<lambda>d. snd (snd d)) ds \<and>
            page_labels p3 = map (\<lambda>d. snd (snd d)) ds \<and>
            page_labels p4 =
              concat (map (\<lambda>d. [snd (snd d) @ '' Data Points'', snd (snd d) @ '' Fit'']) ds)) \<and>
         map (\<lambda>d. snd (snd d)) ds =
           filter (\<lambda>n. n \<in> dom (datasets w)) (map fst (filter snd (dataset_selector w))) \<and>
         save_pdf polyfit env (w\<lparr>plot_type_selector := t\<rparr>) fs = save_pdf polyfit env w fs"
proof -
  have wf: "\<forall>d\<in>set ds. length (fst d) = length (fst (snd d)) \<and> fst (snd d) \<noteq> []"
    using gather_wf [OF assms(8)] .
  obtain p1 where p1: "chart_page polyfit ''line'' ds = Inr p1"
    using chart_page_ok [OF wf, of "''line''" polyfit] by auto
  obtain p2 where p2: "chart_page polyfit ''hist'' ds = Inr p2"
    using chart_page_ok [OF wf, of "''hist''" polyfit] by auto
  obtain p3 where p3: "chart_page polyfit ''fft'' ds = Inr p3"
    using chart_page_ok [OF wf, of "''fft''" polyfit] by auto
  obtain p4 where p4: "chart_page polyfit ''regression'' ds = Inr p4"
    using chart_page_ok [OF wf, of "''regression''" polyfit] assms(9) by auto
  have s: "snd (save_pdf polyfit env w fs) = None \<and>
           files (fst (save_pdf polyfit env w fs)) (save_path env) =
             Some [stats_page ds, p1, p2, p3, p4]"
    using save_pdf_success [OF assms(1-8) p1 p2 p3 p4] .
  have l: "page_labels p1 = map (\<lambda>d. snd (snd d)) ds"
    "page_labels p2 = map (\<lambda>d. snd (snd d)) ds"
    "page_labels p3 = map (\<lambda>d. snd (snd d)) ds"
    "page_labels p4 =
       concat (map (\<lambda>d. [snd (snd d) @ '' Data Points'', snd (snd d) @ '' Fit'']) ds)"
    using chart_page_labels [OF p1] chart_page_labels [OF p2] chart_page_labels [OF p3]
      chart_page_labels [OF p4] by simp_all
  show ?thesis
    using s p1 p2 p3 p4 l gather_names [OF assms(8)] save_pdf_plot_type by auto
qed

lemma ols_A: "ols_polyfit [0, 1, 2] [0, 1, 0] = Inr (0, 1 / 3)"
  by (simp add: ols_polyfit_def Let_def)

lemma ols_B: "ols_polyfit [0, 1, 2] [2, 1, 2] = Inr (0, 5 / 3)"
  by (simp add: ols_polyfit_def Let_def)

lemma gather_scenario:
  "gather (datasets scenario_window) (dataset_selector scenario_window) =
     Inr [([0, 1, 2], [0, 1, 0], ''A''), ([0, 1, 2], [2, 1, 2], ''B'')]"
  by (simp add: scenario_window_def init_window_def unpack_A unpack_B)

theorem report_covers_ticked_entries_witness:
  "mkdtemp good_env = Inr ''/tmp/tmpq1'' \<and> pdf_open good_env = None \<and>
   (\<forall>i. savefig good_env i = None) \<and> pdf_close good_env = None \<and> move good_env = None \<and>
   save_path good_env \<noteq> [] \<and> \<not> is_under ''/tmp/tmpq1'' (save_path good_env) \<and>
   gather (datasets scenario_window) (dataset_selector scenario_window) =
     Inr [([0, 1, 2], [0, 1, 0], ''A''), ([0, 1, 2], [2, 1, 2], ''B'')] \<and>
   ols_polyfit [0, 1, 2] [0, 1, 0] = Inr (0, 1 / 3) \<and>
   ols_polyfit [0, 1, 2] [2, 1, 2] = Inr (0, 5 / 3) \<and>
   snd (save_pdf ols_polyfit good_env scenario_window empty_fs) = None \<and>
   map_option (map page_labels)
     (files (fst (save_pdf ols_polyfit good_env scenario_window empty_fs)) ''/home/u/report.pdf'') =
     Some [[''Detailed Statistics'',
            ''A: Mean = 0.33, Median = 0.00, Std Dev = 0.47'',
            ''B: Mean = 1.67, Median = 2.00, Std Dev = 0.47''],
           [''A'', ''B''], [''A'', ''B''], [''A'', ''B''],
           [''A Data Points'', ''A Fit'', ''B Data Points'', ''B Fit'']]"
proof -
  let ?ds = "[([0, 1, 2], [0, 1, 0], ''A''), ([0, 1, 2], [2, 1, 2], ''B'')] :: dataset list"
  have e: "mkdtemp good_env = Inr ''/tmp/tmpq1''" "pdf_open good_env = None"
    "\<forall>i. savefig good_env i = None" "pdf_close good_env = None" "move good_env = None"
    "save_path good_env \<noteq> []" "\<not> is_under ''/tmp/tmpq1'' (save_path good_env)"
    by (simp_all add: good_env_def is_under_def)
  have sp: "save_path good_env = ''/home/u/report.pdf''"
    by (simp add: good_env_def)
  have pf: "\<forall>d\<in>set ?ds. \<exists>m b. ols_polyfit (fst d) (fst (snd d)) = Inr (m, b)"
  proof -
    have "\<exists>m b. ols_polyfit [0, 1, 2] [0, 1, 0] = Inr (m, b)"
      using ols_A by blast
    moreover have "\<exists>m b. ols_polyfit [0, 1, 2] [2, 1, 2] = Inr (m, b)"
      using ols_B by blast
    ultimately show ?thesis by simp
  qed
  have st: "page_labels (stats_page ?ds) =
          [''Detailed Statistics'',
            ''A: Mean = 0.33, Median = 0.00, Std Dev = 0.47'',
            ''B: Mean = 1.67, Median = 2.00, Std Dev = 0.47'']"
    using row_A row_B
    by (simp add: page_labels_def stats_page_def stats_line_def np_median_def
        statistics_median_def format_np_def)
  show ?thesis
    using e gather_scenario ols_A ols_B st
      report_covers_ticked_entries [OF e gather_scenario pf, of empty_fs "''line''"]
    by (auto simp: sp)
qed

text \<open>
  C1, as stated, fails: with A in the registry and its entry not ticked, \<open>save_pdf\<close>
  succeeds and the document shows no dataset on any of its five pages.
\<close>

theorem report_leaves_out_unticked_dataset:
  "datasets unticked_window ''A'' = Some dataset_A \<and>
   snd (save_pdf ols_polyfit good_env unticked_window empty_fs) = None \<and>
   map_option (map page_labels)
     (files (fst (save_pdf ols_polyfit good_env unticked_window empty_fs)) ''/home/u/report.pdf'') =
     Some [[''Detailed Statistics''], [], [], [], []]"
  by (simp add: save_pdf_def report_body_def good_env_def unticked_window_def init_window_def
      empty_fs_def plot_types_def chart_page_def append_page_def shutil_move_def rmtree_def
      is_under_def stats_page_def page_labels_def axes_legend_def cleared_def Let_def)

section \<open>Properties of the real-time acquisition\<close>

text \<open>A turn of the loop saves the series exactly when 60 seconds have passed since the last save.\<close>

lemma run_iteration_saves:
  "np_saves (fst (run_iteration start_time t_sample t_check t_save t_after (w, last_save_time))) =
     (if 60 \<le> t_check - last_save_time
      then np_saves w @
             [(''data_'' @ str_int (py_int t_save) @ ''.npy'',
               data w @ [(t_sample - start_time,
                          amplitude w * sin (frequency w * (t_sample - start_time)) + offset w)])]
      else np_saves w)"
  by (simp add: run_iteration_def save_data_def Let_def)

text \<open>
  C9.  \<open>stop\<close> clears the running flag and makes exactly one \<open>np.save\<close> call after those
  already made: it saves the whole accumulated series to the file
  \<open>data_<int(time.time())>.npy\<close>.
\<close>

theorem stop_saves_once:
  "np_saves (stop now w) =
     np_saves w @ [(''data_'' @ str_int (py_int now) @ ''.npy'', data w)] \<and>
   length (np_saves (stop now w)) = length (np_saves w) + 1 \<and>
   \<not> running (stop now w) \<and> data (stop now w) = data w"
  by (simp add: stop_def save_data_def Let_def)

end
